theory Spec2Isabelle
  imports Complex_Main
begin

section \<open>Floating-point values\<close>

text \<open>
  A C++ \<open>float\<close> that the program can make infinite or NaN is modelled by \<open>f32\<close>: a finite
  value \<open>Fin r\<close>, one of the two infinities, or NaN. The operations follow IEEE 754 on the
  infinities and on NaN. On finite operands they are exact: neither rounding nor the
  overflow of a finite result is modelled, so an infinity enters only through the
  conversion from \<open>double\<close>, and NaN only through an invalid operation (\<open>inf - inf\<close>,
  \<open>0 * inf\<close>, the sine or cosine of an infinity, the square root or arcsine outside their
  domains). Signed zeros are not distinguished.

  A \<open>double\<close> argument of a callback, and a \<open>float\<close> that stays finite in every run
  (\<open>gSpeedScale\<close>, \<open>gDeltaTime\<close>, \<open>gLastFrame\<close>, \<open>Zoom\<close> and the constants), is a
  \<^typ>\<open>real\<close>.
\<close>

datatype f32 = NaN | NInf | Fin real | PInf

definition FLT_MAX :: real where
  "FLT_MAX = 340282346638528859811704183484516925440"

definition in_float_range :: "real \<Rightarrow> bool" where
  "in_float_range r = (- FLT_MAX \<le> r \<and> r \<le> FLT_MAX)"

text \<open>\<open>static_cast<float>(d)\<close> for a \<open>double\<close> \<open>d\<close>: beyond the range of float it is infinite.\<close>

definition to_float :: "real \<Rightarrow> f32" where
  "to_float d = (if FLT_MAX < d then PInf else if d < - FLT_MAX then NInf else Fin d)"

fun fneg :: "f32 \<Rightarrow> f32" where
  "fneg NaN = NaN"
| "fneg NInf = PInf"
| "fneg PInf = NInf"
| "fneg (Fin a) = Fin (- a)"

fun fadd :: "f32 \<Rightarrow> f32 \<Rightarrow> f32" where
  "fadd (Fin a) (Fin b) = Fin (a + b)"
| "fadd NaN b = NaN"
| "fadd a NaN = NaN"
| "fadd PInf NInf = NaN"
| "fadd NInf PInf = NaN"
| "fadd PInf b = PInf"
| "fadd a PInf = PInf"
| "fadd NInf b = NInf"
| "fadd a NInf = NInf"

definition fsub :: "f32 \<Rightarrow> f32 \<Rightarrow> f32" where
  "fsub a b = fadd a (fneg b)"

text \<open>The product of an infinity and a finite value: NaN at zero, else by the signs.\<close>

definition inf_times :: "bool \<Rightarrow> real \<Rightarrow> f32" where
  "inf_times positive r =
     (if r = 0 then NaN else if (0 < r) = positive then PInf else NInf)"

fun fmul :: "f32 \<Rightarrow> f32 \<Rightarrow> f32" where
  "fmul (Fin a) (Fin b) = Fin (a * b)"
| "fmul NaN b = NaN"
| "fmul a NaN = NaN"
| "fmul PInf (Fin b) = inf_times True b"
| "fmul NInf (Fin b) = inf_times False b"
| "fmul (Fin a) PInf = inf_times True a"
| "fmul (Fin a) NInf = inf_times False a"
| "fmul PInf PInf = PInf"
| "fmul NInf NInf = PInf"
| "fmul PInf NInf = NInf"
| "fmul NInf PInf = NInf"

text \<open>The comparison \<open>a < b\<close>; it is false whenever an operand is NaN.\<close>

fun fless :: "f32 \<Rightarrow> f32 \<Rightarrow> bool" where
  "fless (Fin a) (Fin b) = (a < b)"
| "fless NaN b = False"
| "fless a NaN = False"
| "fless a NInf = False"
| "fless PInf b = False"
| "fless NInf b = True"
| "fless a PInf = True"

text \<open>\<open>glm::inversesqrt\<close>, that is \<open>1 / sqrt(x)\<close>.\<close>

fun finversesqrt :: "f32 \<Rightarrow> f32" where
  "finversesqrt (Fin r) = (if r < 0 then NaN else if r = 0 then PInf else Fin (1 / sqrt r))"
| "finversesqrt PInf = Fin 0"
| "finversesqrt NInf = NaN"
| "finversesqrt NaN = NaN"

fun fcos :: "f32 \<Rightarrow> f32" where
  "fcos (Fin r) = Fin (cos r)"
| "fcos a = NaN"

fun fsin :: "f32 \<Rightarrow> f32" where
  "fsin (Fin r) = Fin (sin r)"
| "fsin a = NaN"

fun fasin :: "f32 \<Rightarrow> f32" where
  "fasin (Fin r) = (if - 1 \<le> r \<and> r \<le> 1 then Fin (arcsin r) else NaN)"
| "fasin a = NaN"

text \<open>\<open>std::atan2(y, x)\<close> on numbers: the angle of the point \<open>(x, y)\<close>, in \<open>(-pi, pi]\<close>.\<close>

definition atan2 :: "real \<Rightarrow> real \<Rightarrow> real" where
  "atan2 y x =
     (if 0 < x then arctan (y / x)
      else if x < 0 then (if 0 \<le> y then arctan (y / x) + pi else arctan (y / x) - pi)
      else if 0 < y then pi / 2
      else if y < 0 then - (pi / 2)
      else 0)"

text \<open>\<open>std::atan2\<close> on floats, with the values that C fixes for infinite arguments.\<close>

fun fatan2 :: "f32 \<Rightarrow> f32 \<Rightarrow> f32" where
  "fatan2 (Fin y) (Fin x) = Fin (atan2 y x)"
| "fatan2 NaN x = NaN"
| "fatan2 y NaN = NaN"
| "fatan2 PInf PInf = Fin (pi / 4)"
| "fatan2 NInf PInf = Fin (- (pi / 4))"
| "fatan2 PInf NInf = Fin (3 * pi / 4)"
| "fatan2 NInf NInf = Fin (- (3 * pi / 4))"
| "fatan2 PInf (Fin x) = Fin (pi / 2)"
| "fatan2 NInf (Fin x) = Fin (- (pi / 2))"
| "fatan2 (Fin y) PInf = Fin 0"
| "fatan2 (Fin y) NInf = (if y < 0 then Fin (- pi) else Fin pi)"

text \<open>\<open>glm::radians\<close> and \<open>glm::degrees\<close>, on numbers and on floats.\<close>

definition radians :: "real \<Rightarrow> real" where
  "radians d = d * (pi / 180)"

definition degrees :: "real \<Rightarrow> real" where
  "degrees r = r * (180 / pi)"

definition fradians :: "f32 \<Rightarrow> f32" where
  "fradians d = fmul d (Fin (pi / 180))"

definition fdegrees :: "f32 \<Rightarrow> f32" where
  "fdegrees r = fmul r (Fin (180 / pi))"

section \<open>Vectors and the GLM helpers used by ViewManager.cpp\<close>

text \<open>
  \<open>glm::vec3\<close> is a triple of floats. The operations below are the GLM functions that
  ViewManager.cpp calls, written out component by component.
\<close>

datatype vec3 = Vec3 (vx: f32) (vy: f32) (vz: f32)

definition vadd :: "vec3 \<Rightarrow> vec3 \<Rightarrow> vec3" where
  "vadd a b = Vec3 (fadd (vx a) (vx b)) (fadd (vy a) (vy b)) (fadd (vz a) (vz b))"

definition vsub :: "vec3 \<Rightarrow> vec3 \<Rightarrow> vec3" where
  "vsub a b = Vec3 (fsub (vx a) (vx b)) (fsub (vy a) (vy b)) (fsub (vz a) (vz b))"

definition vscale :: "vec3 \<Rightarrow> f32 \<Rightarrow> vec3" where
  "vscale a k = Vec3 (fmul (vx a) k) (fmul (vy a) k) (fmul (vz a) k)"

definition dot :: "vec3 \<Rightarrow> vec3 \<Rightarrow> f32" where
  "dot a b = fadd (fadd (fmul (vx a) (vx b)) (fmul (vy a) (vy b))) (fmul (vz a) (vz b))"

definition cross :: "vec3 \<Rightarrow> vec3 \<Rightarrow> vec3" where
  "cross a b = Vec3 (fsub (fmul (vy a) (vz b)) (fmul (vy b) (vz a)))
                    (fsub (fmul (vz a) (vx b)) (fmul (vz b) (vx a)))
                    (fsub (fmul (vx a) (vy b)) (fmul (vx b) (vy a)))"

text \<open>
  \<open>glm::normalize(v)\<close> is \<open>v * inversesqrt(dot(v, v))\<close>. At the zero vector it is
  \<open>0 * inf\<close> in each component, a vector of NaN.
\<close>

definition normalize :: "vec3 \<Rightarrow> vec3" where
  "normalize v = vscale v (finversesqrt (dot v v))"

section \<open>External collaborators\<close>

text \<open>
  The keys that \<open>ProcessKeyboardEvents\<close> polls. A keyboard is the answer of
  \<open>glfwGetKey(m_pWindow, k) == GLFW_PRESS\<close> for each of them at the time of the poll.
\<close>

datatype key =
    GLFW_KEY_ESCAPE
  | GLFW_KEY_O | GLFW_KEY_P
  | GLFW_KEY_W | GLFW_KEY_S | GLFW_KEY_A | GLFW_KEY_D | GLFW_KEY_Q | GLFW_KEY_E

type_synonym keyboard = "key \<Rightarrow> bool"

text \<open>
  The class \<open>Camera\<close> is declared outside the files at hand; ViewManager.cpp reads and
  writes the four public fields below and calls \<open>GetViewMatrix()\<close>.
\<close>

record Camera =
  Position :: vec3
  Front :: vec3
  Up :: vec3
  Zoom :: real

text \<open>
  The matrix constructors of GLM and the camera's view-matrix query are parameters of the
  model: \<open>'m\<close> stands for \<open>glm::mat4\<close>, and every theorem holds for whatever these four
  functions compute.
\<close>

record 'm glm =
  lookAt :: "vec3 \<Rightarrow> vec3 \<Rightarrow> vec3 \<Rightarrow> 'm"
  ortho :: "real \<Rightarrow> real \<Rightarrow> real \<Rightarrow> real \<Rightarrow> real \<Rightarrow> real \<Rightarrow> 'm"
  perspective :: "real \<Rightarrow> real \<Rightarrow> real \<Rightarrow> real \<Rightarrow> 'm"
  GetViewMatrix :: "Camera \<Rightarrow> 'm"

text \<open>
  Modelled from the spec: the class \<open>ShaderManager\<close> is declared outside the files at
  hand. The spec describes it as a sink accepting named 4x4 matrix and 3-vector uniform
  writes; the object is modelled as the sequence of writes it has received, oldest first.
\<close>

datatype 'm uniform = Mat4Value 'm | Vec3Value vec3

type_synonym 'm ShaderManager = "(string \<times> 'm uniform) list"

definition setMat4Value :: "string \<Rightarrow> 'm \<Rightarrow> 'm ShaderManager \<Rightarrow> 'm ShaderManager" where
  "setMat4Value name m sm = sm @ [(name, Mat4Value m)]"

definition setVec3Value :: "string \<Rightarrow> vec3 \<Rightarrow> 'm ShaderManager \<Rightarrow> 'm ShaderManager" where
  "setVec3Value name v sm = sm @ [(name, Vec3Value v)]"

section \<open>The state of ViewManager.cpp\<close>

text \<open>
  The file-scope variables of the anonymous namespace, the camera object behind
  \<open>g_pCamera\<close>, and the members of the class. \<open>m_pShaderManager\<close> is \<open>None\<close> for a
  null pointer. \<open>m_pWindow\<close> is taken to be the window made by \<open>CreateDisplayWindow\<close>;
  of that window the model keeps the close flag that \<open>glfwSetWindowShouldClose\<close> sets.
\<close>

record 'm view_state =
  m_pShaderManager :: "'m ShaderManager option"
  windowShouldClose :: bool
  g_pCamera :: Camera
  gLastX :: f32
  gLastY :: f32
  gFirstMouse :: bool
  gDeltaTime :: real
  gLastFrame :: real
  bOrthographicProjection :: bool
  gSpeedScale :: real
  gYaw :: f32
  gPitch :: f32
  gToggleKeyDown_O :: bool
  gToggleKeyDown_P :: bool

text \<open>Variables of the anonymous namespace that are never assigned after their initialiser.\<close>

definition WINDOW_WIDTH :: real where "WINDOW_WIDTH = 1000"
definition WINDOW_HEIGHT :: real where "WINDOW_HEIGHT = 800"
definition g_ViewName :: string where "g_ViewName = ''view''"
definition g_ProjectionName :: string where "g_ProjectionName = ''projection''"
definition gBaseMoveSpeed :: real where "gBaseMoveSpeed = 6"
definition gMouseSensitivity :: real where "gMouseSensitivity = 1 / 10"
definition gOrthoTarget :: vec3 where
  "gOrthoTarget = Vec3 (Fin (- 2)) (Fin (95 / 100)) (Fin (- 1))"
definition gOrthoCamPos :: vec3 where
  "gOrthoCamPos = Vec3 (Fin (- 2)) (Fin (95 / 100)) (Fin 8)"

section \<open>The functions of ViewManager.cpp\<close>

text \<open>
  \<open>ViewManager::ViewManager\<close>, lines 67-87, applied to the variables as their initialisers
  (lines 30-55) leave them. The camera keeps the front vector as assigned on line 77; only
  the local copy used to derive the angles is normalised.
\<close>

definition ViewManager :: "'m ShaderManager option \<Rightarrow> 'm view_state" where
  "ViewManager pShaderManager =
     (let front = normalize (Vec3 (Fin 0) (Fin (- (1 / 2))) (Fin (- 2))) in
      \<lparr> m_pShaderManager = pShaderManager,
        windowShouldClose = False,
        g_pCamera = \<lparr> Position = Vec3 (Fin 0) (Fin 5) (Fin 12),
                      Front = Vec3 (Fin 0) (Fin (- (1 / 2))) (Fin (- 2)),
                      Up = Vec3 (Fin 0) (Fin 1) (Fin 0), Zoom = 80 \<rparr>,
        gLastX = Fin (WINDOW_WIDTH / 2),
        gLastY = Fin (WINDOW_HEIGHT / 2),
        gFirstMouse = True,
        gDeltaTime = 0,
        gLastFrame = 0,
        bOrthographicProjection = False,
        gSpeedScale = 1,
        gYaw = fsub (fdegrees (fatan2 (vz front) (vx front))) (Fin 90),
        gPitch = fdegrees (fasin (vy front)),
        gToggleKeyDown_O = False,
        gToggleKeyDown_P = False \<rparr>)"

text \<open>Lines 181-185: the front vector of a yaw and a pitch given in degrees.\<close>

definition front_of_angles :: "f32 \<Rightarrow> f32 \<Rightarrow> vec3" where
  "front_of_angles yaw pitch =
     normalize (Vec3 (fmul (fcos (fradians yaw)) (fcos (fradians pitch)))
                     (fsin (fradians pitch))
                     (fmul (fsin (fradians yaw)) (fcos (fradians pitch))))"

text \<open>
  \<open>ViewManager::Mouse_Position_Callback\<close>, lines 148-187. The arguments are the two
  \<open>double\<close> coordinates; lines 152-153 convert them to float.
\<close>

definition Mouse_Position_Callback :: "real \<Rightarrow> real \<Rightarrow> 'm view_state \<Rightarrow> 'm view_state" where
  "Mouse_Position_Callback xMousePos yMousePos s0 =
     (let x = to_float xMousePos;
          y = to_float yMousePos;
          s1 = (if gFirstMouse s0
                then s0\<lparr>gLastX := x, gLastY := y, gFirstMouse := False\<rparr>
                else s0);
          xoffset = fsub x (gLastX s1);
          yoffset = fsub (gLastY s1) y;
          s2 = s1\<lparr>gLastX := x, gLastY := y\<rparr>;
          xoffset = fmul xoffset (Fin gMouseSensitivity);
          yoffset = fmul yoffset (Fin gMouseSensitivity)
      in if \<not> bOrthographicProjection s2 then
           (let yaw = fadd (gYaw s2) xoffset;
                pitch = fadd (gPitch s2) yoffset;
                pitch = (if fless (Fin 89) pitch then Fin 89 else pitch);
                pitch = (if fless pitch (Fin (- 89)) then Fin (- 89) else pitch)
            in s2\<lparr>gYaw := yaw, gPitch := pitch,
                  g_pCamera := (g_pCamera s2)\<lparr>Front := front_of_angles yaw pitch\<rparr>\<rparr>)
         else s2)"

text \<open>
  \<open>ViewManager::Mouse_Scroll_Callback\<close>, lines 194-202. Where the offset converted to
  float is infinite, so is the sum, and the comparisons clamp it to the bound to which the
  number computed here is clamped.
\<close>

definition Mouse_Scroll_Callback :: "real \<Rightarrow> real \<Rightarrow> 'm view_state \<Rightarrow> 'm view_state" where
  "Mouse_Scroll_Callback xOffset yOffset s =
     (let sp = gSpeedScale s + yOffset * (10 / 100);
          sp = (if sp < 10 / 100 then 10 / 100 else sp);
          sp = (if sp > 5 then 5 else sp)
      in s\<lparr>gSpeedScale := sp\<rparr>)"

text \<open>Lines 215-241 of \<open>ProcessKeyboardEvents\<close>: the two one-tap mode keys.\<close>

definition poll_mode_keys :: "keyboard \<Rightarrow> 'm view_state \<Rightarrow> 'm view_state" where
  "poll_mode_keys keys s0 =
     (let s1 = (if keys GLFW_KEY_O
                then (if \<not> gToggleKeyDown_O s0
                      then s0\<lparr>bOrthographicProjection := True, gToggleKeyDown_O := True\<rparr>
                      else s0)
                else s0\<lparr>gToggleKeyDown_O := False\<rparr>)
      in (if keys GLFW_KEY_P
          then (if \<not> gToggleKeyDown_P s1
                then s1\<lparr>bOrthographicProjection := False, gToggleKeyDown_P := True\<rparr>
                else s1)
          else s1\<lparr>gToggleKeyDown_P := False\<rparr>))"

text \<open>Lines 248-265 of \<open>ProcessKeyboardEvents\<close>: the six movement keys, in source order.\<close>

definition move_camera :: "keyboard \<Rightarrow> real \<Rightarrow> Camera \<Rightarrow> Camera" where
  "move_camera keys velocity c0 =
     (let c1 = (if keys GLFW_KEY_W
                then c0\<lparr>Position := vadd (Position c0) (vscale (Front c0) (Fin velocity))\<rparr> else c0);
          c2 = (if keys GLFW_KEY_S
                then c1\<lparr>Position := vsub (Position c1) (vscale (Front c1) (Fin velocity))\<rparr> else c1);
          right = normalize (cross (Front c2) (Up c2));
          c3 = (if keys GLFW_KEY_A
                then c2\<lparr>Position := vsub (Position c2) (vscale right (Fin velocity))\<rparr> else c2);
          c4 = (if keys GLFW_KEY_D
                then c3\<lparr>Position := vadd (Position c3) (vscale right (Fin velocity))\<rparr> else c3);
          c5 = (if keys GLFW_KEY_Q
                then c4\<lparr>Position := vadd (Position c4) (vscale (Up c4) (Fin velocity))\<rparr> else c4)
      in (if keys GLFW_KEY_E
          then c5\<lparr>Position := vsub (Position c5) (vscale (Up c5) (Fin velocity))\<rparr> else c5))"

text \<open>\<open>ViewManager::ProcessKeyboardEvents\<close>, lines 207-267.\<close>

definition ProcessKeyboardEvents :: "keyboard \<Rightarrow> 'm view_state \<Rightarrow> 'm view_state" where
  "ProcessKeyboardEvents keys s0 =
     (let s1 = (if keys GLFW_KEY_ESCAPE then s0\<lparr>windowShouldClose := True\<rparr> else s0);
          s2 = poll_mode_keys keys s1
      in if \<not> bOrthographicProjection s2 then
           (let velocity = gBaseMoveSpeed * gSpeedScale s2 * gDeltaTime s2
            in s2\<lparr>g_pCamera := move_camera keys velocity (g_pCamera s2)\<rparr>)
         else s2)"

text \<open>
  \<open>ViewManager::PrepareSceneView\<close>, lines 272-332. \<open>currentFrame\<close> is the value of the
  local variable of line 278, the clock reading as a finite float, and \<open>keys\<close> the keyboard
  that the poll of line 283 observes.
\<close>

definition PrepareSceneView ::
  "'m glm \<Rightarrow> real \<Rightarrow> keyboard \<Rightarrow> 'm view_state \<Rightarrow> 'm view_state" where
  "PrepareSceneView G currentFrame keys s0 =
     (let s1 = s0\<lparr>gDeltaTime := currentFrame - gLastFrame s0, gLastFrame := currentFrame\<rparr>;
          s2 = ProcessKeyboardEvents keys s1;
          (view, projection) =
            (if bOrthographicProjection s2 then
               (let aspect = WINDOW_WIDTH / WINDOW_HEIGHT;
                    orthoSize = 85 / 100
                in (lookAt G gOrthoCamPos gOrthoTarget (Vec3 (Fin 0) (Fin 1) (Fin 0)),
                    ortho G (- orthoSize * aspect) (orthoSize * aspect)
                            (- orthoSize) orthoSize (1 / 10) 100))
             else
               (GetViewMatrix G (g_pCamera s2),
                perspective G (radians (Zoom (g_pCamera s2)))
                              (WINDOW_WIDTH / WINDOW_HEIGHT) (1 / 10) 100))
      in case m_pShaderManager s2 of
           None \<Rightarrow> s2
         | Some sm \<Rightarrow>
             (let sm = setMat4Value g_ViewName view sm;
                  sm = setMat4Value g_ProjectionName projection sm;
                  sm = (if bOrthographicProjection s2
                        then setVec3Value ''viewPosition'' gOrthoCamPos sm
                        else setVec3Value ''viewPosition'' (Position (g_pCamera s2)) sm)
              in s2\<lparr>m_pShaderManager := Some sm\<rparr>))"

section \<open>Runs of the event loop\<close>

text \<open>
  GLFW delivers cursor and scroll callbacks and the application calls
  \<open>PrepareSceneView\<close> once per frame, all on one thread. A run is a list of such events.
\<close>

datatype event =
    CursorPos real real
  | Scroll real real
  | Frame real keyboard

fun dispatch :: "'m glm \<Rightarrow> 'm view_state \<Rightarrow> event \<Rightarrow> 'm view_state" where
  "dispatch G s (CursorPos x y) = Mouse_Position_Callback x y s"
| "dispatch G s (Scroll xo yo) = Mouse_Scroll_Callback xo yo s"
| "dispatch G s (Frame t keys) = PrepareSceneView G t keys s"

definition run :: "'m glm \<Rightarrow> 'm view_state \<Rightarrow> event list \<Rightarrow> 'm view_state" where
  "run G s evs = foldl (dispatch G) s evs"

section \<open>Notions used to state the properties\<close>

text \<open>The ranges that the two clamps enforce.\<close>

definition speed_ok :: "'m view_state \<Rightarrow> bool" where
  "speed_ok s = (1 / 10 \<le> gSpeedScale s \<and> gSpeedScale s \<le> 5)"

definition in_pitch_range :: "f32 \<Rightarrow> bool" where
  "in_pitch_range p = (case p of Fin r \<Rightarrow> - 89 \<le> r \<and> r \<le> 89 | _ \<Rightarrow> False)"

definition pitch_ok :: "'m view_state \<Rightarrow> bool" where
  "pitch_ok s = in_pitch_range (gPitch s)"

text \<open>The vertical coordinate of a cursor sample lies within the range of float.\<close>

fun cursor_y_in_range :: "event \<Rightarrow> bool" where
  "cursor_y_in_range (CursorPos x y) = in_float_range y"
| "cursor_y_in_range (Scroll xo yo) = True"
| "cursor_y_in_range (Frame t keys) = True"

text \<open>Vectors and cameras all of whose components are finite.\<close>

fun finite_f32 :: "f32 \<Rightarrow> bool" where
  "finite_f32 (Fin r) = True"
| "finite_f32 a = False"

definition finite_vec :: "vec3 \<Rightarrow> bool" where
  "finite_vec v = (finite_f32 (vx v) \<and> finite_f32 (vy v) \<and> finite_f32 (vz v))"

text \<open>
  A camera with a finite position, front and up vector whose strafe vector
  \<open>normalize(cross(Front, Up))\<close> is finite too, that is, whose front is not parallel to up.
\<close>

definition finite_camera :: "Camera \<Rightarrow> bool" where
  "finite_camera c =
     (finite_vec (Position c) \<and> finite_vec (Front c) \<and> finite_vec (Up c) \<and>
      finite_vec (normalize (cross (Front c) (Up c))))"

text \<open>
  A mode transition fires in a poll when the assignment of line 220 (to orthographic) or of
  line 234 (to perspective) is executed. These are the guards under which they are reached;
  the block of the O key does not write \<open>gToggleKeyDown_P\<close>.
\<close>

definition enters_orthographic :: "keyboard \<Rightarrow> 'm view_state \<Rightarrow> bool" where
  "enters_orthographic keys s = (keys GLFW_KEY_O \<and> \<not> gToggleKeyDown_O s)"

definition enters_perspective :: "keyboard \<Rightarrow> 'm view_state \<Rightarrow> bool" where
  "enters_perspective keys s = (keys GLFW_KEY_P \<and> \<not> gToggleKeyDown_P s)"

text \<open>The number of transitions that fire in a sequence of consecutive polls.\<close>

fun ortho_transitions :: "keyboard list \<Rightarrow> 'm view_state \<Rightarrow> nat" where
  "ortho_transitions [] s = 0"
| "ortho_transitions (k # ks) s =
     (if enters_orthographic k s then 1 else 0) +
     ortho_transitions ks (ProcessKeyboardEvents k s)"

fun persp_transitions :: "keyboard list \<Rightarrow> 'm view_state \<Rightarrow> nat" where
  "persp_transitions [] s = 0"
| "persp_transitions (k # ks) s =
     (if enters_perspective k s then 1 else 0) +
     persp_transitions ks (ProcessKeyboardEvents k s)"

text \<open>The mode is orthographic before and after every event of a run.\<close>

fun ortho_throughout :: "'m glm \<Rightarrow> 'm view_state \<Rightarrow> event list \<Rightarrow> bool" where
  "ortho_throughout G s [] = bOrthographicProjection s"
| "ortho_throughout G s (e # es) =
     (bOrthographicProjection s \<and> ortho_throughout G (dispatch G s e) es)"

text \<open>The uniform writes that one call of \<open>PrepareSceneView\<close> performs.\<close>

definition received :: "'m view_state \<Rightarrow> (string \<times> 'm uniform) list" where
  "received s = (case m_pShaderManager s of None \<Rightarrow> [] | Some sm \<Rightarrow> sm)"

definition uploads_of_frame ::
  "'m glm \<Rightarrow> real \<Rightarrow> keyboard \<Rightarrow> 'm view_state \<Rightarrow> (string \<times> 'm uniform) list" where
  "uploads_of_frame G t keys s =
     drop (length (received s)) (received (PrepareSceneView G t keys s))"

text \<open>
  The direction that a set of held movement keys asks for: forward minus back along the
  front vector, right minus left along the strafe vector, up minus down along the up
  vector.
\<close>

definition held_direction :: "keyboard \<Rightarrow> Camera \<Rightarrow> vec3" where
  "held_direction keys c =
     vadd (vadd (vscale (Front c) (Fin (of_bool (keys GLFW_KEY_W) - of_bool (keys GLFW_KEY_S))))
                (vscale (normalize (cross (Front c) (Up c)))
                        (Fin (of_bool (keys GLFW_KEY_D) - of_bool (keys GLFW_KEY_A)))))
          (vscale (Up c) (Fin (of_bool (keys GLFW_KEY_Q) - of_bool (keys GLFW_KEY_E))))"

text \<open>\<open>n\<close> consecutive frames, the clock advancing by \<open>dt\<close> from one to the next.\<close>

fun frames :: "'m glm \<Rightarrow> keyboard \<Rightarrow> real \<Rightarrow> nat \<Rightarrow> 'm view_state \<Rightarrow> 'm view_state" where
  "frames G keys dt 0 s = s"
| "frames G keys dt (Suc n) s =
     frames G keys dt n (PrepareSceneView G (gLastFrame s + dt) keys s)"

text \<open>
  An instance of the GLM parameters for concrete runs: each matrix is the record of the
  call that made it.
\<close>

datatype mat4_term =
    LookAt vec3 vec3 vec3
  | Ortho real real real real real real
  | Perspective real real real real
  | ViewMatrixOf Camera

definition symbolic_glm :: "mat4_term glm" where
  "symbolic_glm = \<lparr> lookAt = LookAt, ortho = Ortho, perspective = Perspective,
                     GetViewMatrix = ViewMatrixOf \<rparr>"

text \<open>Keyboards with no key, or exactly one key, pressed.\<close>

definition no_keys :: keyboard where
  "no_keys k = False"

definition only :: "key \<Rightarrow> keyboard" where
  "only k0 k = (k = k0)"

section \<open>What each function leaves unchanged\<close>

lemma poll_mode_keys_fields [simp]:
  "gPitch (poll_mode_keys keys s) = gPitch s"
  "gYaw (poll_mode_keys keys s) = gYaw s"
  "gSpeedScale (poll_mode_keys keys s) = gSpeedScale s"
  "gDeltaTime (poll_mode_keys keys s) = gDeltaTime s"
  "gLastFrame (poll_mode_keys keys s) = gLastFrame s"
  "g_pCamera (poll_mode_keys keys s) = g_pCamera s"
  "gFirstMouse (poll_mode_keys keys s) = gFirstMouse s"
  "gLastX (poll_mode_keys keys s) = gLastX s"
  "gLastY (poll_mode_keys keys s) = gLastY s"
  "m_pShaderManager (poll_mode_keys keys s) = m_pShaderManager s"
  "windowShouldClose (poll_mode_keys keys s) = windowShouldClose s"
  "gToggleKeyDown_O (poll_mode_keys keys s) = keys GLFW_KEY_O"
  "gToggleKeyDown_P (poll_mode_keys keys s) = keys GLFW_KEY_P"
  by (simp_all add: poll_mode_keys_def Let_def)

lemma poll_mode_keys_mode:
  "bOrthographicProjection (poll_mode_keys keys s) =
     (if keys GLFW_KEY_P \<and> \<not> gToggleKeyDown_P s then False
      else if keys GLFW_KEY_O \<and> \<not> gToggleKeyDown_O s then True
      else bOrthographicProjection s)"
  by (simp add: poll_mode_keys_def Let_def)

lemma ProcessKeyboardEvents_fields [simp]:
  "gPitch (ProcessKeyboardEvents keys s) = gPitch s"
  "gYaw (ProcessKeyboardEvents keys s) = gYaw s"
  "gSpeedScale (ProcessKeyboardEvents keys s) = gSpeedScale s"
  "gDeltaTime (ProcessKeyboardEvents keys s) = gDeltaTime s"
  "gLastFrame (ProcessKeyboardEvents keys s) = gLastFrame s"
  "gFirstMouse (ProcessKeyboardEvents keys s) = gFirstMouse s"
  "gLastX (ProcessKeyboardEvents keys s) = gLastX s"
  "gLastY (ProcessKeyboardEvents keys s) = gLastY s"
  "m_pShaderManager (ProcessKeyboardEvents keys s) = m_pShaderManager s"
  "gToggleKeyDown_O (ProcessKeyboardEvents keys s) = keys GLFW_KEY_O"
  "gToggleKeyDown_P (ProcessKeyboardEvents keys s) = keys GLFW_KEY_P"
  by (simp_all add: ProcessKeyboardEvents_def Let_def)

lemma ProcessKeyboardEvents_mode:
  "bOrthographicProjection (ProcessKeyboardEvents keys s) =
     bOrthographicProjection (poll_mode_keys keys s)"
  by (simp add: ProcessKeyboardEvents_def Let_def poll_mode_keys_def)

lemma PrepareSceneView_fields [simp]:
  "gPitch (PrepareSceneView G t keys s) = gPitch s"
  "gYaw (PrepareSceneView G t keys s) = gYaw s"
  "gSpeedScale (PrepareSceneView G t keys s) = gSpeedScale s"
  "gDeltaTime (PrepareSceneView G t keys s) = t - gLastFrame s"
  "gLastFrame (PrepareSceneView G t keys s) = t"
  "gFirstMouse (PrepareSceneView G t keys s) = gFirstMouse s"
  "gLastX (PrepareSceneView G t keys s) = gLastX s"
  "gLastY (PrepareSceneView G t keys s) = gLastY s"
  by (simp_all add: PrepareSceneView_def Let_def split: option.split prod.split)

lemma Mouse_Scroll_Callback_fields [simp]:
  "gPitch (Mouse_Scroll_Callback xo yo s) = gPitch s"
  "gYaw (Mouse_Scroll_Callback xo yo s) = gYaw s"
  "g_pCamera (Mouse_Scroll_Callback xo yo s) = g_pCamera s"
  "bOrthographicProjection (Mouse_Scroll_Callback xo yo s) = bOrthographicProjection s"
  "gFirstMouse (Mouse_Scroll_Callback xo yo s) = gFirstMouse s"
  "gLastFrame (Mouse_Scroll_Callback xo yo s) = gLastFrame s"
  by (simp_all add: Mouse_Scroll_Callback_def Let_def)

lemma Mouse_Position_Callback_fields [simp]:
  "gSpeedScale (Mouse_Position_Callback x y s) = gSpeedScale s"
  "bOrthographicProjection (Mouse_Position_Callback x y s) = bOrthographicProjection s"
  "gLastX (Mouse_Position_Callback x y s) = to_float x"
  "gLastY (Mouse_Position_Callback x y s) = to_float y"
  "gFirstMouse (Mouse_Position_Callback x y s) = False"
  "gLastFrame (Mouse_Position_Callback x y s) = gLastFrame s"
  "Position (g_pCamera (Mouse_Position_Callback x y s)) = Position (g_pCamera s)"
  "Up (g_pCamera (Mouse_Position_Callback x y s)) = Up (g_pCamera s)"
  "Zoom (g_pCamera (Mouse_Position_Callback x y s)) = Zoom (g_pCamera s)"
  by (simp_all add: Mouse_Position_Callback_def Let_def)

section \<open>Speed scale\<close>

lemma scroll_speed_ok: "speed_ok (Mouse_Scroll_Callback xo yo s)"
  by (simp add: speed_ok_def Mouse_Scroll_Callback_def Let_def)

lemma dispatch_speed_ok: "speed_ok s \<Longrightarrow> speed_ok (dispatch G s e)"
  by (cases e) (simp_all add: scroll_speed_ok, simp_all add: speed_ok_def)

lemma run_speed_ok: "speed_ok s \<Longrightarrow> speed_ok (run G s evs)"
  unfolding run_def by (induction evs arbitrary: s) (simp_all add: dispatch_speed_ok)

lemma initial_speed_ok: "speed_ok (ViewManager sm)"
  by (simp add: speed_ok_def ViewManager_def Let_def)

text \<open>
  C8. In every state reached from the constructed one by cursor, scroll and frame events,
  the speed scale lies between 0.10 and 5.00. A scroll sample adds \<open>yOffset * 0.10\<close> and
  clamps the sum to that range; a scroll of \<open>-60\<close> at speed scale \<open>1.0\<close> gives \<open>0.10\<close>.
\<close>

theorem speed_scale_invariant:
  "1 / 10 \<le> gSpeedScale (run G (ViewManager sm) evs) \<and>
   gSpeedScale (run G (ViewManager sm) evs) \<le> 5 \<and>
   gSpeedScale (Mouse_Scroll_Callback xo yo s) =
     min 5 (max (1 / 10) (gSpeedScale s + yo * (1 / 10))) \<and>
   gSpeedScale (Mouse_Scroll_Callback xo (- 60) (s\<lparr>gSpeedScale := 1\<rparr>)) = 1 / 10"
proof -
  have "speed_ok (run G (ViewManager sm) evs)"
    by (rule run_speed_ok) (rule initial_speed_ok)
  moreover have "gSpeedScale (Mouse_Scroll_Callback xo yo s) =
     min 5 (max (1 / 10) (gSpeedScale s + yo * (1 / 10)))"
    by (simp add: Mouse_Scroll_Callback_def Let_def min_def max_def)
  moreover have "gSpeedScale (Mouse_Scroll_Callback xo (- 60) (s\<lparr>gSpeedScale := 1\<rparr>)) = 1 / 10"
    by (simp add: Mouse_Scroll_Callback_def Let_def)
  ultimately show ?thesis by (simp add: speed_ok_def)
qed

section \<open>The constructed state\<close>

lemma initial_fields [simp]:
  "gFirstMouse (ViewManager sm)"
  "\<not> bOrthographicProjection (ViewManager sm)"
  "g_pCamera (ViewManager sm) =
     \<lparr> Position = Vec3 (Fin 0) (Fin 5) (Fin 12),
       Front = Vec3 (Fin 0) (Fin (- (1 / 2))) (Fin (- 2)),
       Up = Vec3 (Fin 0) (Fin 1) (Fin 0), Zoom = 80 \<rparr>"
  "gLastFrame (ViewManager sm) = 0"
  "gDeltaTime (ViewManager sm) = 0"
  "gSpeedScale (ViewManager sm) = 1"
  "\<not> gToggleKeyDown_O (ViewManager sm)"
  "\<not> gToggleKeyDown_P (ViewManager sm)"
  "m_pShaderManager (ViewManager sm) = sm"
  by (simp_all add: ViewManager_def Let_def)

lemma fradians_fdegrees: "fradians (fdegrees (Fin r)) = Fin r"
  by (simp add: fradians_def fdegrees_def)

lemma normalize_initial_front:
  "normalize (Vec3 (Fin 0) (Fin (- (1 / 2))) (Fin (- 2))) =
     Vec3 (Fin 0) (Fin (- (1 / sqrt 17))) (Fin (- (4 / sqrt 17)))"
  by (simp add: normalize_def vscale_def dot_def real_sqrt_divide)

text \<open>
  Line 85: \<open>atan2(front.z, front.x)\<close> is \<open>-pi/2\<close> at the initial front vector, that is
  \<open>-90\<close> degrees, from which the line subtracts another \<open>90\<close>.
\<close>

lemma initial_yaw: "gYaw (ViewManager sm) = Fin (- 180)"
  by (simp add: ViewManager_def Let_def normalize_initial_front atan2_def fdegrees_def
        fsub_def)

lemma inv_sqrt17_bounds: "0 \<le> 1 / sqrt 17 \<and> 1 / sqrt 17 \<le> 1 / 2"
proof -
  have "2 \<le> sqrt 17" by (rule real_le_rsqrt) simp
  then show ?thesis by (simp add: field_simps)
qed

lemma initial_pitch: "gPitch (ViewManager sm) = Fin (degrees (arcsin (- (1 / sqrt 17))))"
proof -
  have "- 1 \<le> - (1 / sqrt 17) \<and> - (1 / sqrt 17) \<le> 1"
    using inv_sqrt17_bounds by linarith
  then show ?thesis
    by (simp add: ViewManager_def Let_def normalize_initial_front fdegrees_def degrees_def)
qed

lemma sin_arcsin_17: "sin (arcsin (- (1 / sqrt 17))) = - (1 / sqrt 17)"
  using inv_sqrt17_bounds by (intro sin_arcsin) linarith+

lemma cos_arcsin_17: "cos (arcsin (- (1 / sqrt 17))) = 4 / sqrt 17"
proof -
  have "cos (arcsin (- (1 / sqrt 17))) = sqrt (1 - (- (1 / sqrt 17))\<^sup>2)"
    using inv_sqrt17_bounds by (intro cos_arcsin) linarith+
  also have "\<dots> = sqrt (16 / 17)" by (simp add: power2_eq_square)
  also have "\<dots> = sqrt 16 / sqrt 17" by (rule real_sqrt_divide)
  also have "sqrt 16 = 4" by (rule real_sqrt_unique) auto
  finally show ?thesis .
qed

text \<open>The initial pitch is about \<open>-14\<close> degrees; it is enough that it is within 30.\<close>

lemma initial_pitch_ok: "pitch_ok (ViewManager sm)"
proof -
  let ?a = "1 / sqrt 17"
  have "arcsin ?a \<le> arcsin (1 / 2)"
    using inv_sqrt17_bounds by (intro arcsin_le_arcsin) linarith+
  also have "arcsin (1 / 2) = pi / 6"
    using arcsin_sin [of "pi / 6"] by (simp add: sin_30)
  finally have up: "arcsin ?a \<le> pi / 6" .
  have "arcsin 0 \<le> arcsin ?a"
    using inv_sqrt17_bounds by (intro arcsin_le_arcsin) linarith+
  then have lo: "0 \<le> arcsin ?a" by simp
  have m: "arcsin (- ?a) = - arcsin ?a"
    using inv_sqrt17_bounds by (intro arcsin_minus) linarith+
  have "degrees (arcsin ?a) \<le> degrees (pi / 6)"
    unfolding degrees_def using up by (intro mult_right_mono) simp_all
  then have u2: "degrees (arcsin ?a) \<le> 30" by (simp add: degrees_def)
  have l2: "0 \<le> degrees (arcsin ?a)" unfolding degrees_def using lo by simp
  have "degrees (arcsin (- ?a)) = - degrees (arcsin ?a)" by (simp add: m degrees_def)
  then show ?thesis using u2 l2 by (simp add: pitch_ok_def in_pitch_range_def initial_pitch)
qed

lemma front_of_initial_angles:
  "front_of_angles (gYaw (ViewManager sm)) (gPitch (ViewManager sm)) =
     Vec3 (Fin (- (4 / sqrt 17))) (Fin (- (1 / sqrt 17))) (Fin 0)"
proof -
  have r180: "fradians (Fin (- 180)) = Fin (- pi)" by (simp add: fradians_def)
  have rp: "fradians (Fin (degrees (arcsin (- (1 / sqrt 17))))) = Fin (arcsin (- (1 / sqrt 17)))"
    by (simp add: fradians_def degrees_def)
  show ?thesis
    by (simp add: initial_yaw initial_pitch front_of_angles_def r180 rp
          cos_arcsin_17 sin_arcsin_17 normalize_def vscale_def dot_def
          power2_eq_square[symmetric] power_divide)
qed

lemma front_of_intended_angles:
  "front_of_angles (Fin (- 90)) (gPitch (ViewManager sm)) =
     Vec3 (Fin 0) (Fin (- (1 / sqrt 17))) (Fin (- (4 / sqrt 17)))"
proof -
  have r90: "fradians (Fin (- 90)) = Fin (- (pi / 2))" by (simp add: fradians_def)
  have rp: "fradians (Fin (degrees (arcsin (- (1 / sqrt 17))))) = Fin (arcsin (- (1 / sqrt 17)))"
    by (simp add: fradians_def degrees_def)
  show ?thesis
    by (simp add: initial_pitch front_of_angles_def r90 rp
          cos_arcsin_17 sin_arcsin_17 normalize_def vscale_def dot_def
          power2_eq_square[symmetric] power_divide)
qed

section \<open>Pitch\<close>

lemma to_float_in_range: "in_float_range r \<Longrightarrow> to_float r = Fin r"
  by (simp add: to_float_def in_float_range_def)

lemma fadd_zero [simp]: "fadd z (Fin 0) = z"
  by (cases z) simp_all

lemma clamp_in_range_or_NaN:
  "in_pitch_range
     (if fless (if fless (Fin 89) z then Fin 89 else z) (Fin (- 89)) then Fin (- 89)
      else (if fless (Fin 89) z then Fin 89 else z)) \<or>
   (if fless (if fless (Fin 89) z then Fin 89 else z) (Fin (- 89)) then Fin (- 89)
    else (if fless (Fin 89) z then Fin 89 else z)) = NaN"
  by (cases z) (simp_all add: in_pitch_range_def)

lemma clamp_unchanged:
  "in_pitch_range z \<or> z = NaN \<Longrightarrow>
   (if fless (if fless (Fin 89) z then Fin 89 else z) (Fin (- 89)) then Fin (- 89)
    else (if fless (Fin 89) z then Fin 89 else z)) = z"
  by (cases z) (auto simp: in_pitch_range_def)

lemma cursor_pitch_clamped:
  "in_pitch_range (gPitch s) \<or> gPitch s = NaN \<Longrightarrow>
   in_pitch_range (gPitch (Mouse_Position_Callback x y s)) \<or>
   gPitch (Mouse_Position_Callback x y s) = NaN"
  using clamp_in_range_or_NaN by (simp add: Mouse_Position_Callback_def Let_def)

lemma dispatch_pitch_clamped:
  "in_pitch_range (gPitch s) \<or> gPitch s = NaN \<Longrightarrow>
   in_pitch_range (gPitch (dispatch G s e)) \<or> gPitch (dispatch G s e) = NaN"
  by (cases e) (simp_all add: cursor_pitch_clamped)

lemma run_pitch_clamped:
  "in_pitch_range (gPitch s) \<or> gPitch s = NaN \<Longrightarrow>
   in_pitch_range (gPitch (run G s evs)) \<or> gPitch (run G s evs) = NaN"
  unfolding run_def by (induction evs arbitrary: s) (simp_all add: dispatch_pitch_clamped)

lemma cursor_pitch_update:
  assumes "\<not> bOrthographicProjection s" "\<not> gFirstMouse s" "in_float_range y"
    "gPitch s = Fin p" "gLastY s = Fin ly"
  shows "gPitch (Mouse_Position_Callback x y s) =
           Fin (max (- 89) (min 89 (p + (ly - y) * (1 / 10))))"
  using assms
  by (simp add: Mouse_Position_Callback_def Let_def to_float_in_range fsub_def
        gMouseSensitivity_def max_def min_def)

lemma cursor_pitch_orthographic:
  "bOrthographicProjection s \<Longrightarrow> gPitch (Mouse_Position_Callback x y s) = gPitch s"
  by (simp add: Mouse_Position_Callback_def Let_def)

lemma cursor_pitch_ok:
  assumes "pitch_ok s" "finite_f32 (gLastY s)" "in_float_range y"
  shows "pitch_ok (Mouse_Position_Callback x y s) \<and>
         finite_f32 (gLastY (Mouse_Position_Callback x y s))"
proof -
  obtain p where p: "gPitch s = Fin p" "- 89 \<le> p" "p \<le> 89"
    using assms(1) by (cases "gPitch s") (simp_all add: pitch_ok_def in_pitch_range_def)
  obtain ly where ly: "gLastY s = Fin ly"
    using assms(2) by (cases "gLastY s") simp_all
  show ?thesis
    using p ly assms(3)
    by (simp add: Mouse_Position_Callback_def Let_def to_float_in_range fsub_def
          pitch_ok_def in_pitch_range_def)
qed

lemma dispatch_pitch_ok:
  assumes "pitch_ok s" "finite_f32 (gLastY s)" "cursor_y_in_range e"
  shows "pitch_ok (dispatch G s e) \<and> finite_f32 (gLastY (dispatch G s e))"
proof (cases e)
  case (CursorPos x y)
  with assms show ?thesis by (simp add: cursor_pitch_ok to_float_in_range)
next
  case (Scroll xo yo)
  with assms show ?thesis by (simp add: pitch_ok_def Mouse_Scroll_Callback_def Let_def)
next
  case (Frame t keys)
  with assms show ?thesis by (simp add: pitch_ok_def)
qed

lemma run_pitch_ok:
  "pitch_ok s \<Longrightarrow> finite_f32 (gLastY s) \<Longrightarrow> list_all cursor_y_in_range evs \<Longrightarrow>
   pitch_ok (run G s evs)"
proof (induction evs arbitrary: s)
  case Nil
  then show ?case by (simp add: run_def)
next
  case (Cons e es)
  have "pitch_ok (dispatch G s e) \<and> finite_f32 (gLastY (dispatch G s e))"
    using Cons.prems by (intro dispatch_pitch_ok) simp_all
  then have "pitch_ok (run G (dispatch G s e) es)"
    using Cons.prems by (intro Cons.IH) simp_all
  then show ?case by (simp add: run_def)
qed

lemma initial_last_cursor [simp]:
  "gLastX (ViewManager sm) = Fin 500" "gLastY (ViewManager sm) = Fin 400"
  by (simp_all add: ViewManager_def Let_def WINDOW_WIDTH_def WINDOW_HEIGHT_def)

text \<open>
  C3, as stated, fails: after construction, one cursor sample whose vertical coordinate is
  \<open>10^39\<close>, beyond the range of float, leaves the stored pitch NaN. The converted
  coordinate is infinite; being the first sample it seeds \<open>gLastY\<close>, so the offset is
  \<open>inf - inf\<close>, which is NaN, and NaN passes both comparisons of the clamp.
\<close>

theorem pitch_out_of_range:
  "gPitch (run symbolic_glm (ViewManager None) [CursorPos 500 (10 ^ 39)]) = NaN \<and>
   \<not> pitch_ok (run symbolic_glm (ViewManager None) [CursorPos 500 (10 ^ 39)])"
proof -
  have "gPitch (run symbolic_glm (ViewManager None) [CursorPos 500 (10 ^ 39)]) = NaN"
    by (simp add: run_def Mouse_Position_Callback_def Let_def to_float_def FLT_MAX_def
          fsub_def initial_pitch)
  then show ?thesis by (simp add: pitch_ok_def in_pitch_range_def)
qed

text \<open>
  C3, amended. In every state reached from the constructed one by cursor samples whose
  vertical coordinate is within the range of float, interleaved with scroll samples and
  with frames that may change the mode, the stored pitch is a number between \<open>-89\<close> and
  \<open>89\<close> degrees; the horizontal coordinates are arbitrary. In perspective mode a sample
  after the first sets a pitch in that range to itself plus a tenth of the vertical
  distance from the last sample, clamped to that range; in orthographic mode a sample
  leaves the pitch as it is.
\<close>

theorem pitch_invariant:
  "(list_all cursor_y_in_range evs \<longrightarrow> pitch_ok (run G (ViewManager sm) evs)) \<and>
   (\<not> bOrthographicProjection s \<and> \<not> gFirstMouse s \<and> in_float_range y \<and>
    gPitch s = Fin p \<and> - 89 \<le> p \<and> p \<le> 89 \<and> gLastY s = Fin ly \<longrightarrow>
      gPitch (Mouse_Position_Callback x y s) =
        Fin (max (- 89) (min 89 (p + (ly - y) * (1 / 10))))) \<and>
   (bOrthographicProjection s \<longrightarrow> gPitch (Mouse_Position_Callback x y s) = gPitch s)"
proof (intro conjI impI)
  show "pitch_ok (run G (ViewManager sm) evs)" if "list_all cursor_y_in_range evs"
    using that by (intro run_pitch_ok initial_pitch_ok) simp_all
  show "gPitch (Mouse_Position_Callback x y s) =
        Fin (max (- 89) (min 89 (p + (ly - y) * (1 / 10))))"
    if "\<not> bOrthographicProjection s \<and> \<not> gFirstMouse s \<and> in_float_range y \<and>
        gPitch s = Fin p \<and> - 89 \<le> p \<and> p \<le> 89 \<and> gLastY s = Fin ly"
    using that by (intro cursor_pitch_update) simp_all
  show "gPitch (Mouse_Position_Callback x y s) = gPitch s" if "bOrthographicProjection s"
    using that by (rule cursor_pitch_orthographic)
qed

theorem pitch_invariant_witness:
  "list_all cursor_y_in_range [CursorPos 500 400, CursorPos (10 ^ 39) (- (10 ^ 30))] \<and>
   pitch_ok (run symbolic_glm (ViewManager None)
     [CursorPos 500 400, CursorPos (10 ^ 39) (- (10 ^ 30))]) \<and>
   gPitch (Mouse_Position_Callback 0 (- (10 ^ 30))
     ((ViewManager None :: mat4_term view_state)\<lparr>gFirstMouse := False, gPitch := Fin 0\<rparr>)) =
     Fin 89 \<and>
   gPitch (Mouse_Position_Callback 0 (10 ^ 39)
     ((ViewManager None :: mat4_term view_state)\<lparr>bOrthographicProjection := True\<rparr>)) =
     gPitch (ViewManager None :: mat4_term view_state)"
proof -
  have r: "in_float_range (- (10 ^ 30))" "in_float_range 400"
    by (simp_all add: in_float_range_def FLT_MAX_def)
  have h: "list_all cursor_y_in_range [CursorPos 500 400, CursorPos (10 ^ 39) (- (10 ^ 30))]"
    using r by simp
  let ?s = "(ViewManager None :: mat4_term view_state)\<lparr>gFirstMouse := False, gPitch := Fin 0\<rparr>"
  have a: "\<not> bOrthographicProjection ?s \<and> \<not> gFirstMouse ?s \<and> in_float_range (- (10 ^ 30)) \<and>
      gPitch ?s = Fin 0 \<and> - 89 \<le> (0 :: real) \<and> (0 :: real) \<le> 89 \<and> gLastY ?s = Fin 400"
    using r by simp
  let ?o = "(ViewManager None :: mat4_term view_state)\<lparr>bOrthographicProjection := True\<rparr>"
  have b: "bOrthographicProjection ?o" by simp
  show ?thesis
    using h a b
      pitch_invariant [of "[CursorPos 500 400, CursorPos (10 ^ 39) (- (10 ^ 30))]"
        symbolic_glm None ?s "- (10 ^ 30)" 0 400 0]
      pitch_invariant [of "[]" symbolic_glm None ?o "10 ^ 39" 0 0 0]
    by simp
qed

section \<open>The first cursor sample and the initial orientation\<close>

lemma first_sample_general:
  assumes "gFirstMouse s" and "in_pitch_range (gPitch s) \<or> gPitch s = NaN"
    and "in_float_range x" and "in_float_range y"
  shows "gYaw (Mouse_Position_Callback x y s) = gYaw s"
    and "gPitch (Mouse_Position_Callback x y s) = gPitch s"
    and "Front (g_pCamera (Mouse_Position_Callback x y s)) =
           (if bOrthographicProjection s then Front (g_pCamera s)
            else front_of_angles (gYaw s) (gPitch s))"
  using assms clamp_unchanged [of "gPitch s"]
  by (simp_all add: Mouse_Position_Callback_def Let_def to_float_in_range fsub_def)

lemma first_sample_from_constructed:
  assumes "in_float_range x" "in_float_range y"
  shows "Front (g_pCamera (Mouse_Position_Callback x y (ViewManager sm))) =
     Vec3 (Fin (- (4 / sqrt 17))) (Fin (- (1 / sqrt 17))) (Fin 0)"
proof -
  have "in_pitch_range (gPitch (ViewManager sm)) \<or> gPitch (ViewManager sm) = NaN"
    using initial_pitch_ok [of sm] by (simp add: pitch_ok_def)
  from first_sample_general(3) [OF initial_fields(1) this assms]
  show ?thesis by (simp add: front_of_initial_angles)
qed

lemma window_centre_in_range: "in_float_range 500" "in_float_range 400"
  by (simp_all add: in_float_range_def FLT_MAX_def)

text \<open>
  C1. The constructor derives a yaw of \<open>-180\<close> degrees from the initial front vector, whose
  normalised form is \<open>(0, -1/sqrt 17, -4/sqrt 17)\<close>. The front vector recomputed from the
  derived yaw and pitch is \<open>(-4/sqrt 17, -1/sqrt 17, 0)\<close>: it points along \<open>-x\<close> where the
  original points along \<open>-z\<close>, and this is the vector that the first cursor sample stores in
  the camera, whatever its coordinates within the range of float. With a yaw of \<open>-90\<close>
  degrees and the derived pitch, the recomputed vector is the normalised original.
\<close>

theorem initial_orientation_derivation:
  "gYaw (ViewManager sm) = Fin (- 180) \<and>
   normalize (Front (g_pCamera (ViewManager sm))) =
     Vec3 (Fin 0) (Fin (- (1 / sqrt 17))) (Fin (- (4 / sqrt 17))) \<and>
   front_of_angles (gYaw (ViewManager sm)) (gPitch (ViewManager sm)) =
     Vec3 (Fin (- (4 / sqrt 17))) (Fin (- (1 / sqrt 17))) (Fin 0) \<and>
   (in_float_range x \<and> in_float_range y \<longrightarrow>
      Front (g_pCamera (Mouse_Position_Callback x y (ViewManager sm))) =
        Vec3 (Fin (- (4 / sqrt 17))) (Fin (- (1 / sqrt 17))) (Fin 0)) \<and>
   front_of_angles (Fin (- 90)) (gPitch (ViewManager sm)) =
     normalize (Front (g_pCamera (ViewManager sm)))"
proof (intro conjI impI)
  show "gYaw (ViewManager sm) = Fin (- 180)" by (rule initial_yaw)
  show n: "normalize (Front (g_pCamera (ViewManager sm))) =
      Vec3 (Fin 0) (Fin (- (1 / sqrt 17))) (Fin (- (4 / sqrt 17)))"
    by (simp add: normalize_initial_front)
  show "front_of_angles (gYaw (ViewManager sm)) (gPitch (ViewManager sm)) =
      Vec3 (Fin (- (4 / sqrt 17))) (Fin (- (1 / sqrt 17))) (Fin 0)"
    by (rule front_of_initial_angles)
  show "Front (g_pCamera (Mouse_Position_Callback x y (ViewManager sm))) =
      Vec3 (Fin (- (4 / sqrt 17))) (Fin (- (1 / sqrt 17))) (Fin 0)"
    if "in_float_range x \<and> in_float_range y"
    using that by (intro first_sample_from_constructed) simp_all
  show "front_of_angles (Fin (- 90)) (gPitch (ViewManager sm)) =
      normalize (Front (g_pCamera (ViewManager sm)))"
    unfolding n by (rule front_of_intended_angles)
qed

theorem initial_orientation_derivation_witness:
  "in_float_range 500 \<and> in_float_range 400 \<and>
   Front (g_pCamera (Mouse_Position_Callback 500 400
     (ViewManager None :: mat4_term view_state))) =
     Vec3 (Fin (- (4 / sqrt 17))) (Fin (- (1 / sqrt 17))) (Fin 0)"
  using window_centre_in_range
    initial_orientation_derivation [of "None :: mat4_term ShaderManager option" 500 400]
  by simp

text \<open>
  C9, as stated, fails: the first cursor sample after construction, here at the centre of
  the window, changes the front vector of the camera.
\<close>

theorem first_sample_changes_front:
  "Front (g_pCamera (Mouse_Position_Callback 500 400 (ViewManager None))) \<noteq>
   Front (g_pCamera (ViewManager None))"
  by (simp add: first_sample_from_constructed window_centre_in_range)

text \<open>
  C9, amended. In a state reached from the constructed one in which no cursor sample has
  been taken yet, a cursor sample at any \<open>(x, y)\<close> within the range of float leaves yaw and
  pitch unchanged and stores \<open>(x, y)\<close> as the last cursor position. In orthographic mode
  the front vector is unchanged; in perspective mode it is recomputed from the unchanged
  yaw and pitch.
\<close>

theorem first_sample_suppression:
  assumes "gFirstMouse (run G (ViewManager sm) evs)"
    and "in_float_range x" and "in_float_range y"
  shows "gYaw (Mouse_Position_Callback x y (run G (ViewManager sm) evs)) =
           gYaw (run G (ViewManager sm) evs) \<and>
         gPitch (Mouse_Position_Callback x y (run G (ViewManager sm) evs)) =
           gPitch (run G (ViewManager sm) evs) \<and>
         gLastX (Mouse_Position_Callback x y (run G (ViewManager sm) evs)) = Fin x \<and>
         gLastY (Mouse_Position_Callback x y (run G (ViewManager sm) evs)) = Fin y \<and>
         Front (g_pCamera (Mouse_Position_Callback x y (run G (ViewManager sm) evs))) =
           (if bOrthographicProjection (run G (ViewManager sm) evs)
            then Front (g_pCamera (run G (ViewManager sm) evs))
            else front_of_angles (gYaw (run G (ViewManager sm) evs))
                                 (gPitch (run G (ViewManager sm) evs)))"
proof -
  have "in_pitch_range (gPitch (ViewManager sm)) \<or> gPitch (ViewManager sm) = NaN"
    using initial_pitch_ok [of sm] by (simp add: pitch_ok_def)
  then have "in_pitch_range (gPitch (run G (ViewManager sm) evs)) \<or>
      gPitch (run G (ViewManager sm) evs) = NaN"
    by (rule run_pitch_clamped)
  with assms show ?thesis
    by (simp add: first_sample_general to_float_in_range)
qed

theorem first_sample_suppression_witness:
  "gFirstMouse (run symbolic_glm (ViewManager None) [Scroll 0 1]) \<and>
   in_float_range 640 \<and> in_float_range 360 \<and>
   gYaw (Mouse_Position_Callback 640 360 (run symbolic_glm (ViewManager None) [Scroll 0 1])) =
     Fin (- 180) \<and>
   gLastX (Mouse_Position_Callback 640 360 (run symbolic_glm (ViewManager None) [Scroll 0 1])) =
     Fin 640 \<and>
   gLastY (Mouse_Position_Callback 640 360 (run symbolic_glm (ViewManager None) [Scroll 0 1])) =
     Fin 360"
proof -
  have h: "gFirstMouse (run symbolic_glm (ViewManager None) [Scroll 0 1])"
    by (simp add: run_def)
  have r: "in_float_range 640" "in_float_range 360"
    by (simp_all add: in_float_range_def FLT_MAX_def)
  show ?thesis
    using h r first_sample_suppression [OF h r] by (simp add: run_def initial_yaw)
qed

section \<open>The per-frame update\<close>

lemma ProcessKeyboardEvents_camera:
  "g_pCamera (ProcessKeyboardEvents keys s) =
     (if bOrthographicProjection (ProcessKeyboardEvents keys s) then g_pCamera s
      else move_camera keys (gBaseMoveSpeed * gSpeedScale s * gDeltaTime s) (g_pCamera s))"
  by (simp add: ProcessKeyboardEvents_def Let_def)

lemma ProcessKeyboardEvents_mode_eq:
  "bOrthographicProjection (ProcessKeyboardEvents keys s) =
     (if enters_perspective keys s then False
      else if enters_orthographic keys s then True
      else bOrthographicProjection s)"
  by (simp add: ProcessKeyboardEvents_mode poll_mode_keys_mode enters_perspective_def
        enters_orthographic_def)

lemma poll_mode_keys_eq:
  "poll_mode_keys keys s =
     s\<lparr>bOrthographicProjection :=
          (if enters_perspective keys s then False
           else if enters_orthographic keys s then True
           else bOrthographicProjection s),
       gToggleKeyDown_O := keys GLFW_KEY_O,
       gToggleKeyDown_P := keys GLFW_KEY_P\<rparr>"
  by (simp add: poll_mode_keys_def Let_def enters_perspective_def enters_orthographic_def)

lemma enters_shader [simp]:
  "enters_perspective keys (s\<lparr>m_pShaderManager := p\<rparr>) = enters_perspective keys s"
  "enters_orthographic keys (s\<lparr>m_pShaderManager := p\<rparr>) = enters_orthographic keys s"
  "enters_perspective keys (s\<lparr>windowShouldClose := b\<rparr>) = enters_perspective keys s"
  "enters_orthographic keys (s\<lparr>windowShouldClose := b\<rparr>) = enters_orthographic keys s"
  by (simp_all add: enters_perspective_def enters_orthographic_def)

lemma ProcessKeyboardEvents_shader:
  "ProcessKeyboardEvents keys (s\<lparr>m_pShaderManager := p\<rparr>) =
     (ProcessKeyboardEvents keys s)\<lparr>m_pShaderManager := p\<rparr>"
  by (simp add: ProcessKeyboardEvents_def Let_def poll_mode_keys_eq)

lemma PrepareSceneView_erase:
  "(PrepareSceneView G t keys s)\<lparr>m_pShaderManager := p\<rparr> =
     (ProcessKeyboardEvents keys (s\<lparr>gDeltaTime := t - gLastFrame s, gLastFrame := t\<rparr>))
       \<lparr>m_pShaderManager := p\<rparr>"
  by (simp add: PrepareSceneView_def Let_def split: option.split prod.split)

lemma PrepareSceneView_state:
  "(PrepareSceneView G t keys s)\<lparr>m_pShaderManager := None\<rparr> =
     ProcessKeyboardEvents keys
       (s\<lparr>m_pShaderManager := None, gDeltaTime := t - gLastFrame s, gLastFrame := t\<rparr>)"
proof -
  have "s\<lparr>m_pShaderManager := None, gDeltaTime := t - gLastFrame s, gLastFrame := t\<rparr> =
        (s\<lparr>gDeltaTime := t - gLastFrame s, gLastFrame := t\<rparr>)\<lparr>m_pShaderManager := None\<rparr>"
    by simp
  then show ?thesis
    by (simp only: PrepareSceneView_erase ProcessKeyboardEvents_shader)
qed

lemma PrepareSceneView_more_fields [simp]:
  "gToggleKeyDown_O (PrepareSceneView G t keys s) = keys GLFW_KEY_O"
  "gToggleKeyDown_P (PrepareSceneView G t keys s) = keys GLFW_KEY_P"
  by (simp_all add: PrepareSceneView_def Let_def split: option.split prod.split)

lemma PrepareSceneView_mode:
  "bOrthographicProjection (PrepareSceneView G t keys s) =
     (if enters_perspective keys s then False
      else if enters_orthographic keys s then True
      else bOrthographicProjection s)"
  by (simp add: PrepareSceneView_def Let_def ProcessKeyboardEvents_mode_eq
        enters_perspective_def enters_orthographic_def split: option.split prod.split)

lemma PrepareSceneView_camera:
  "g_pCamera (PrepareSceneView G t keys s) =
     (if bOrthographicProjection (PrepareSceneView G t keys s) then g_pCamera s
      else move_camera keys (gBaseMoveSpeed * gSpeedScale s * (t - gLastFrame s)) (g_pCamera s))"
  by (simp add: PrepareSceneView_def Let_def ProcessKeyboardEvents_camera
        ProcessKeyboardEvents_mode_eq enters_perspective_def enters_orthographic_def
        split: option.split prod.split)

lemma PrepareSceneView_null:
  "m_pShaderManager s = None \<Longrightarrow> m_pShaderManager (PrepareSceneView G t keys s) = None"
  by (simp add: PrepareSceneView_def Let_def split: option.split prod.split)

lemma PrepareSceneView_valid:
  "m_pShaderManager s = Some sm \<Longrightarrow>
   m_pShaderManager (PrepareSceneView G t keys s) =
     Some (sm @
       (if bOrthographicProjection (PrepareSceneView G t keys s) then
          [(''view'', Mat4Value (lookAt G gOrthoCamPos gOrthoTarget (Vec3 (Fin 0) (Fin 1) (Fin 0)))),
           (''projection'',
            Mat4Value (ortho G (- (85 / 100) * (1000 / 800)) (85 / 100 * (1000 / 800))
                               (- (85 / 100)) (85 / 100) (1 / 10) 100)),
           (''viewPosition'', Vec3Value gOrthoCamPos)]
        else
          [(''view'', Mat4Value (GetViewMatrix G (g_pCamera (PrepareSceneView G t keys s)))),
           (''projection'',
            Mat4Value (perspective G (radians (Zoom (g_pCamera (PrepareSceneView G t keys s))))
                                     (1000 / 800) (1 / 10) 100)),
           (''viewPosition'', Vec3Value (Position (g_pCamera (PrepareSceneView G t keys s))))]))"
  by (simp add: PrepareSceneView_def Let_def setMat4Value_def setVec3Value_def
        g_ViewName_def g_ProjectionName_def WINDOW_WIDTH_def WINDOW_HEIGHT_def
        split: prod.split)

section \<open>The frame clock\<close>

text \<open>
  C2, as stated, fails: the first frame after construction, at a clock reading of 5 seconds,
  has a non-zero \<open>gDeltaTime\<close>.
\<close>

theorem first_tick_not_zero:
  "gDeltaTime (PrepareSceneView symbolic_glm 5 no_keys (ViewManager None)) \<noteq> 0"
  by simp

text \<open>
  C2, amended. \<open>gLastFrame\<close> is 0 after construction, and the cursor and scroll callbacks
  leave it unchanged. Every call of \<open>PrepareSceneView\<close> sets \<open>gDeltaTime\<close> to the clock
  reading minus \<open>gLastFrame\<close> and then \<open>gLastFrame\<close> to the clock reading; so the first
  frame after construction yields a \<open>gDeltaTime\<close> equal to the clock reading itself.
\<close>

theorem first_tick_delta:
  "gLastFrame (ViewManager sm) = 0 \<and>
   gDeltaTime (PrepareSceneView G t keys (ViewManager sm)) = t \<and>
   gDeltaTime (PrepareSceneView G t keys s) = t - gLastFrame s \<and>
   gLastFrame (PrepareSceneView G t keys s) = t \<and>
   gLastFrame (Mouse_Position_Callback x y s) = gLastFrame s \<and>
   gLastFrame (Mouse_Scroll_Callback xo yo s) = gLastFrame s"
  by simp

section \<open>Uniform uploads\<close>

text \<open>
  C10. With a null \<open>m_pShaderManager\<close> a frame performs no uniform write; the state it
  leaves is the one that advancing the clock and processing the keyboard produce, and it is
  the state that the same frame leaves with a valid shader manager, the shader manager
  apart.
\<close>

theorem null_shader_manager_frame:
  "uploads_of_frame G t keys (s\<lparr>m_pShaderManager := None\<rparr>) = [] \<and>
   PrepareSceneView G t keys (s\<lparr>m_pShaderManager := None\<rparr>) =
     ProcessKeyboardEvents keys
       (s\<lparr>m_pShaderManager := None, gDeltaTime := t - gLastFrame s, gLastFrame := t\<rparr>) \<and>
   PrepareSceneView G t keys (s\<lparr>m_pShaderManager := None\<rparr>) =
     (PrepareSceneView G t keys (s\<lparr>m_pShaderManager := Some sm\<rparr>))\<lparr>m_pShaderManager := None\<rparr>"
proof (intro conjI)
  have n: "m_pShaderManager (PrepareSceneView G t keys (s\<lparr>m_pShaderManager := None\<rparr>)) = None"
    by (rule PrepareSceneView_null) simp
  show "uploads_of_frame G t keys (s\<lparr>m_pShaderManager := None\<rparr>) = []"
    by (simp add: uploads_of_frame_def received_def n)
  have e: "PrepareSceneView G t keys (s\<lparr>m_pShaderManager := None\<rparr>) =
      (PrepareSceneView G t keys (s\<lparr>m_pShaderManager := None\<rparr>))\<lparr>m_pShaderManager := None\<rparr>"
    using n by (metis view_state.surjective view_state.update_convs(1))
  show "PrepareSceneView G t keys (s\<lparr>m_pShaderManager := None\<rparr>) =
     ProcessKeyboardEvents keys
       (s\<lparr>m_pShaderManager := None, gDeltaTime := t - gLastFrame s, gLastFrame := t\<rparr>)"
    by (subst e) (simp add: PrepareSceneView_state)
  show "PrepareSceneView G t keys (s\<lparr>m_pShaderManager := None\<rparr>) =
     (PrepareSceneView G t keys (s\<lparr>m_pShaderManager := Some sm\<rparr>))\<lparr>m_pShaderManager := None\<rparr>"
    by (subst e) (simp add: PrepareSceneView_state)
qed

text \<open>
  C6, as stated, fails: a frame of a ViewManager constructed with a null shader manager
  does not perform three uploads.
\<close>

theorem frame_without_shader_manager_uploads_nothing:
  "length (uploads_of_frame symbolic_glm 1 no_keys (ViewManager None)) \<noteq> 3"
  by (simp add: uploads_of_frame_def received_def PrepareSceneView_null)

text \<open>
  C6, amended. When \<open>m_pShaderManager\<close> is not null, a frame performs exactly three uniform
  writes, named \<open>view\<close>, \<open>projection\<close> and \<open>viewPosition\<close>, in this order. If the mode
  after the keyboard poll of the frame is orthographic they are
  \<open>lookAt(gOrthoCamPos, gOrthoTarget, (0,1,0))\<close>,
  \<open>ortho(-0.85 * aspect, 0.85 * aspect, -0.85, 0.85, 0.1, 100)\<close> with aspect
  \<open>1000/800\<close>, and \<open>gOrthoCamPos\<close>; otherwise they are the camera's view matrix,
  \<open>perspective(radians(Zoom), 1000/800, 0.1, 100)\<close> and the camera's position, the camera
  being taken after the movement of the frame. The writes received before the frame are
  kept.
\<close>

theorem frame_uploads:
  assumes "m_pShaderManager s = Some sm"
  shows "uploads_of_frame G t keys s =
       (if bOrthographicProjection (PrepareSceneView G t keys s) then
          [(''view'', Mat4Value (lookAt G gOrthoCamPos gOrthoTarget (Vec3 (Fin 0) (Fin 1) (Fin 0)))),
           (''projection'',
            Mat4Value (ortho G (- (85 / 100) * (1000 / 800)) (85 / 100 * (1000 / 800))
                               (- (85 / 100)) (85 / 100) (1 / 10) 100)),
           (''viewPosition'', Vec3Value gOrthoCamPos)]
        else
          [(''view'', Mat4Value (GetViewMatrix G (g_pCamera (PrepareSceneView G t keys s)))),
           (''projection'',
            Mat4Value (perspective G (radians (Zoom (g_pCamera (PrepareSceneView G t keys s))))
                                     (1000 / 800) (1 / 10) 100)),
           (''viewPosition'', Vec3Value (Position (g_pCamera (PrepareSceneView G t keys s))))]) \<and>
     m_pShaderManager (PrepareSceneView G t keys s) = Some (sm @ uploads_of_frame G t keys s)"
  using assms PrepareSceneView_valid [OF assms, of G t keys]
  by (simp add: uploads_of_frame_def received_def)

theorem frame_uploads_witness:
  "m_pShaderManager (ViewManager (Some [])) = Some [] \<and>
   uploads_of_frame symbolic_glm 1 (only GLFW_KEY_O) (ViewManager (Some [])) =
     [(''view'', Mat4Value (LookAt (Vec3 (Fin (- 2)) (Fin (95 / 100)) (Fin 8))
                                   (Vec3 (Fin (- 2)) (Fin (95 / 100)) (Fin (- 1)))
                                   (Vec3 (Fin 0) (Fin 1) (Fin 0)))),
      (''projection'', Mat4Value (Ortho (- (17 / 16)) (17 / 16) (- (17 / 20)) (17 / 20)
                                        (1 / 10) 100)),
      (''viewPosition'', Vec3Value (Vec3 (Fin (- 2)) (Fin (95 / 100)) (Fin 8)))]"
proof -
  have h: "m_pShaderManager (ViewManager (Some [])) = (Some [] :: mat4_term ShaderManager option)"
    by simp
  show ?thesis
    using h frame_uploads [OF h, of symbolic_glm 1 "only GLFW_KEY_O"]
    by (simp add: PrepareSceneView_mode enters_perspective_def enters_orthographic_def
          only_def symbolic_glm_def gOrthoCamPos_def gOrthoTarget_def)
qed

section \<open>Mode toggles\<close>

lemma toggle_fields [simp]:
  "gToggleKeyDown_O (Mouse_Position_Callback x y s) = gToggleKeyDown_O s"
  "gToggleKeyDown_P (Mouse_Position_Callback x y s) = gToggleKeyDown_P s"
  "gToggleKeyDown_O (Mouse_Scroll_Callback xo yo s) = gToggleKeyDown_O s"
  "gToggleKeyDown_P (Mouse_Scroll_Callback xo yo s) = gToggleKeyDown_P s"
  by (simp_all add: Mouse_Position_Callback_def Mouse_Scroll_Callback_def Let_def)

lemma enters_after_poll:
  "enters_orthographic k' (ProcessKeyboardEvents k s) = (k' GLFW_KEY_O \<and> \<not> k GLFW_KEY_O)"
  "enters_perspective k' (ProcessKeyboardEvents k s) = (k' GLFW_KEY_P \<and> \<not> k GLFW_KEY_P)"
  by (simp_all add: enters_orthographic_def enters_perspective_def)

lemma held_O_fires_no_more:
  "gToggleKeyDown_O s \<Longrightarrow> \<forall>k\<in>set ks. k GLFW_KEY_O \<Longrightarrow> ortho_transitions ks s = 0"
  by (induction ks arbitrary: s) (auto simp: enters_orthographic_def)

lemma held_P_fires_no_more:
  "gToggleKeyDown_P s \<Longrightarrow> \<forall>k\<in>set ks. k GLFW_KEY_P \<Longrightarrow> persp_transitions ks s = 0"
  by (induction ks arbitrary: s) (auto simp: enters_perspective_def)

lemma held_O_fires_once:
  assumes "ks \<noteq> []" "\<not> gToggleKeyDown_O s" "\<forall>k\<in>set ks. k GLFW_KEY_O"
  shows "ortho_transitions ks s = 1"
proof (cases ks)
  case Nil
  with assms show ?thesis by simp
next
  case (Cons k ks')
  with assms have "ortho_transitions ks' (ProcessKeyboardEvents k s) = 0"
    by (intro held_O_fires_no_more) auto
  with Cons assms show ?thesis by (simp add: enters_orthographic_def)
qed

lemma held_P_fires_once:
  assumes "ks \<noteq> []" "\<not> gToggleKeyDown_P s" "\<forall>k\<in>set ks. k GLFW_KEY_P"
  shows "persp_transitions ks s = 1"
proof (cases ks)
  case Nil
  with assms show ?thesis by simp
next
  case (Cons k ks')
  with assms have "persp_transitions ks' (ProcessKeyboardEvents k s) = 0"
    by (intro held_P_fires_no_more) auto
  with Cons assms show ?thesis by (simp add: enters_perspective_def)
qed

lemma held_O_stays_orthographic:
  "gToggleKeyDown_O s \<Longrightarrow> bOrthographicProjection s \<Longrightarrow>
   \<forall>k\<in>set ks. k GLFW_KEY_O \<and> \<not> k GLFW_KEY_P \<Longrightarrow>
   bOrthographicProjection (fold ProcessKeyboardEvents ks s)"
  by (induction ks arbitrary: s)
     (auto simp: ProcessKeyboardEvents_mode_eq enters_perspective_def)

lemma held_P_stays_perspective:
  "gToggleKeyDown_P s \<Longrightarrow> \<not> bOrthographicProjection s \<Longrightarrow>
   \<forall>k\<in>set ks. k GLFW_KEY_P \<and> \<not> k GLFW_KEY_O \<Longrightarrow>
   \<not> bOrthographicProjection (fold ProcessKeyboardEvents ks s)"
  by (induction ks arbitrary: s)
     (auto simp: ProcessKeyboardEvents_mode_eq enters_perspective_def enters_orthographic_def)

lemma held_O_becomes_orthographic:
  assumes "ks \<noteq> []" "\<not> gToggleKeyDown_O s" "\<forall>k\<in>set ks. k GLFW_KEY_O \<and> \<not> k GLFW_KEY_P"
  shows "bOrthographicProjection (fold ProcessKeyboardEvents ks s)"
proof (cases ks)
  case Nil
  with assms show ?thesis by simp
next
  case (Cons k ks')
  with assms have "bOrthographicProjection (fold ProcessKeyboardEvents ks' (ProcessKeyboardEvents k s))"
    by (intro held_O_stays_orthographic)
       (auto simp: ProcessKeyboardEvents_mode_eq enters_perspective_def enters_orthographic_def)
  with Cons show ?thesis by simp
qed

lemma held_P_becomes_perspective:
  assumes "ks \<noteq> []" "\<not> gToggleKeyDown_P s" "\<forall>k\<in>set ks. k GLFW_KEY_P \<and> \<not> k GLFW_KEY_O"
  shows "\<not> bOrthographicProjection (fold ProcessKeyboardEvents ks s)"
proof (cases ks)
  case Nil
  with assms show ?thesis by simp
next
  case (Cons k ks')
  with assms have "\<not> bOrthographicProjection (fold ProcessKeyboardEvents ks' (ProcessKeyboardEvents k s))"
    by (intro held_P_stays_perspective)
       (auto simp: ProcessKeyboardEvents_mode_eq enters_perspective_def enters_orthographic_def)
  with Cons show ?thesis by simp
qed

text \<open>
  C5. A transition to orthographic fires in a poll when the O key is pressed and
  \<open>gToggleKeyDown_O\<close> is clear, and likewise for perspective with the P key. If the key was
  released before, holding it through any positive number of consecutive polls fires
  exactly one transition; with the other mode key up, the mode after those polls is the
  key's mode. After any poll, a transition fires in the next poll only if the key is
  pressed then and the earlier poll saw it released. The mode after a poll is perspective
  if the P transition fired, else orthographic if the O transition fired, else unchanged;
  so no transition is blocked, and pressing a mode key in its own mode leaves the mode as
  it is.
\<close>

theorem mode_toggles_edge_triggered:
  "(ks \<noteq> [] \<and> \<not> gToggleKeyDown_O s \<and> (\<forall>k\<in>set ks. k GLFW_KEY_O)
      \<longrightarrow> ortho_transitions ks s = 1) \<and>
   (ks \<noteq> [] \<and> \<not> gToggleKeyDown_P s \<and> (\<forall>k\<in>set ks. k GLFW_KEY_P)
      \<longrightarrow> persp_transitions ks s = 1) \<and>
   (ks \<noteq> [] \<and> \<not> gToggleKeyDown_O s \<and> (\<forall>k\<in>set ks. k GLFW_KEY_O \<and> \<not> k GLFW_KEY_P)
      \<longrightarrow> bOrthographicProjection (fold ProcessKeyboardEvents ks s)) \<and>
   (ks \<noteq> [] \<and> \<not> gToggleKeyDown_P s \<and> (\<forall>k\<in>set ks. k GLFW_KEY_P \<and> \<not> k GLFW_KEY_O)
      \<longrightarrow> \<not> bOrthographicProjection (fold ProcessKeyboardEvents ks s)) \<and>
   enters_orthographic k' (ProcessKeyboardEvents k s) = (k' GLFW_KEY_O \<and> \<not> k GLFW_KEY_O) \<and>
   enters_perspective k' (ProcessKeyboardEvents k s) = (k' GLFW_KEY_P \<and> \<not> k GLFW_KEY_P) \<and>
   bOrthographicProjection (ProcessKeyboardEvents k s) =
     (if enters_perspective k s then False
      else if enters_orthographic k s then True
      else bOrthographicProjection s) \<and>
   (bOrthographicProjection s \<and> k GLFW_KEY_O \<and> \<not> k GLFW_KEY_P
      \<longrightarrow> bOrthographicProjection (ProcessKeyboardEvents k s)) \<and>
   (\<not> bOrthographicProjection s \<and> k GLFW_KEY_P \<and> \<not> k GLFW_KEY_O
      \<longrightarrow> \<not> bOrthographicProjection (ProcessKeyboardEvents k s))"
proof (intro conjI impI)
  show "enters_orthographic k' (ProcessKeyboardEvents k s) = (k' GLFW_KEY_O \<and> \<not> k GLFW_KEY_O)"
    by (rule enters_after_poll)
  show "enters_perspective k' (ProcessKeyboardEvents k s) = (k' GLFW_KEY_P \<and> \<not> k GLFW_KEY_P)"
    by (rule enters_after_poll)
  show "bOrthographicProjection (ProcessKeyboardEvents k s) =
     (if enters_perspective k s then False
      else if enters_orthographic k s then True
      else bOrthographicProjection s)"
    by (rule ProcessKeyboardEvents_mode_eq)
  show "ortho_transitions ks s = 1"
    if "ks \<noteq> [] \<and> \<not> gToggleKeyDown_O s \<and> (\<forall>k\<in>set ks. k GLFW_KEY_O)"
    using that by (intro held_O_fires_once) blast+
  show "persp_transitions ks s = 1"
    if "ks \<noteq> [] \<and> \<not> gToggleKeyDown_P s \<and> (\<forall>k\<in>set ks. k GLFW_KEY_P)"
    using that by (intro held_P_fires_once) blast+
  show "bOrthographicProjection (fold ProcessKeyboardEvents ks s)"
    if "ks \<noteq> [] \<and> \<not> gToggleKeyDown_O s \<and>
        (\<forall>k\<in>set ks. k GLFW_KEY_O \<and> \<not> k GLFW_KEY_P)"
    using that by (intro held_O_becomes_orthographic) blast+
  show "\<not> bOrthographicProjection (fold ProcessKeyboardEvents ks s)"
    if "ks \<noteq> [] \<and> \<not> gToggleKeyDown_P s \<and>
        (\<forall>k\<in>set ks. k GLFW_KEY_P \<and> \<not> k GLFW_KEY_O)"
    using that by (intro held_P_becomes_perspective) blast+
  show "bOrthographicProjection (ProcessKeyboardEvents k s)"
    if "bOrthographicProjection s \<and> k GLFW_KEY_O \<and> \<not> k GLFW_KEY_P"
    using that by (simp add: ProcessKeyboardEvents_mode_eq enters_perspective_def)
  show "\<not> bOrthographicProjection (ProcessKeyboardEvents k s)"
    if "\<not> bOrthographicProjection s \<and> k GLFW_KEY_P \<and> \<not> k GLFW_KEY_O"
    using that
    by (simp add: ProcessKeyboardEvents_mode_eq enters_perspective_def enters_orthographic_def)
qed

theorem mode_toggles_edge_triggered_witness:
  "ortho_transitions [only GLFW_KEY_O, only GLFW_KEY_O, only GLFW_KEY_O]
     (ViewManager None :: mat4_term view_state) = 1 \<and>
   persp_transitions [only GLFW_KEY_P, only GLFW_KEY_P]
     (ViewManager None :: mat4_term view_state) = 1 \<and>
   bOrthographicProjection
     (fold ProcessKeyboardEvents [only GLFW_KEY_O, only GLFW_KEY_O, only GLFW_KEY_O]
        (ViewManager None :: mat4_term view_state)) \<and>
   \<not> bOrthographicProjection
     (fold ProcessKeyboardEvents [only GLFW_KEY_P, only GLFW_KEY_P]
        (ProcessKeyboardEvents (only GLFW_KEY_O) (ViewManager None :: mat4_term view_state))) \<and>
   bOrthographicProjection
     (ProcessKeyboardEvents (only GLFW_KEY_O)
        (ProcessKeyboardEvents no_keys
           (ProcessKeyboardEvents (only GLFW_KEY_O) (ViewManager None :: mat4_term view_state)))) \<and>
   \<not> bOrthographicProjection
     (ProcessKeyboardEvents (only GLFW_KEY_P) (ViewManager None :: mat4_term view_state))"
  using
    mode_toggles_edge_triggered [of "[only GLFW_KEY_O, only GLFW_KEY_O, only GLFW_KEY_O]"
      "ViewManager None :: mat4_term view_state"]
    mode_toggles_edge_triggered [of "[only GLFW_KEY_P, only GLFW_KEY_P]"
      "ViewManager None :: mat4_term view_state"]
    mode_toggles_edge_triggered [of "[only GLFW_KEY_P, only GLFW_KEY_P]"
      "ProcessKeyboardEvents (only GLFW_KEY_O) (ViewManager None :: mat4_term view_state)"]
    mode_toggles_edge_triggered [of _
      "ProcessKeyboardEvents no_keys
         (ProcessKeyboardEvents (only GLFW_KEY_O) (ViewManager None :: mat4_term view_state))"
      _ "only GLFW_KEY_O"]
    mode_toggles_edge_triggered [of _ "ViewManager None :: mat4_term view_state"
      _ "only GLFW_KEY_P"]
  by (simp add: only_def no_keys_def ProcessKeyboardEvents_mode_eq enters_perspective_def
        enters_orthographic_def)

section \<open>Orthographic mode\<close>

lemma cursor_orthographic:
  "bOrthographicProjection s \<Longrightarrow> g_pCamera (Mouse_Position_Callback x y s) = g_pCamera s"
  "bOrthographicProjection s \<Longrightarrow> gYaw (Mouse_Position_Callback x y s) = gYaw s"
  "bOrthographicProjection s \<Longrightarrow> gPitch (Mouse_Position_Callback x y s) = gPitch s"
  by (simp_all add: Mouse_Position_Callback_def Let_def)

lemma frame_orthographic:
  "bOrthographicProjection (PrepareSceneView G t keys s) \<Longrightarrow>
   g_pCamera (PrepareSceneView G t keys s) = g_pCamera s"
  by (simp add: PrepareSceneView_camera)

lemma dispatch_orthographic:
  assumes "bOrthographicProjection s" "bOrthographicProjection (dispatch G s e)"
  shows "g_pCamera (dispatch G s e) = g_pCamera s \<and> gYaw (dispatch G s e) = gYaw s \<and>
         gPitch (dispatch G s e) = gPitch s"
  using assms by (cases e) (simp_all add: cursor_orthographic frame_orthographic)

lemma ortho_throughout_start: "ortho_throughout G s evs \<Longrightarrow> bOrthographicProjection s"
  by (cases evs) simp_all

lemma run_orthographic:
  "ortho_throughout G s evs \<Longrightarrow>
   bOrthographicProjection (run G s evs) \<and> g_pCamera (run G s evs) = g_pCamera s \<and>
   gYaw (run G s evs) = gYaw s \<and> gPitch (run G s evs) = gPitch s"
proof (induction evs arbitrary: s)
  case Nil
  then show ?case by (simp add: run_def)
next
  case (Cons e es)
  then have a: "bOrthographicProjection s" and b: "ortho_throughout G (dispatch G s e) es"
    by simp_all
  from b have c: "bOrthographicProjection (dispatch G s e)" by (rule ortho_throughout_start)
  have r: "run G s (e # es) = run G (dispatch G s e) es" by (simp add: run_def)
  show ?case
    unfolding r using Cons.IH [OF b] dispatch_orthographic [OF a c] by simp
qed

lemma move_camera_no_movement_keys:
  "\<not> keys GLFW_KEY_W \<Longrightarrow> \<not> keys GLFW_KEY_S \<Longrightarrow> \<not> keys GLFW_KEY_A \<Longrightarrow>
   \<not> keys GLFW_KEY_D \<Longrightarrow> \<not> keys GLFW_KEY_Q \<Longrightarrow> \<not> keys GLFW_KEY_E \<Longrightarrow>
   move_camera keys v c = c"
  by (simp add: move_camera_def Let_def)

text \<open>
  C4. Take any run of cursor samples, scroll samples and frames, with any keys held, before
  and after each of whose events the mode is orthographic. At its end the camera (position,
  front, up, zoom), the yaw and the pitch are what they were at its start. If the next
  frame fires the transition to perspective, that frame leaves perspective mode with the
  same yaw and pitch, and its camera is the movement of that frame applied to the camera
  from the start of the run; with no movement key held it is that camera itself.
\<close>

theorem orthographic_preserves_pose:
  assumes "ortho_throughout G s evs"
  shows "bOrthographicProjection (run G s evs) \<and>
         g_pCamera (run G s evs) = g_pCamera s \<and>
         gYaw (run G s evs) = gYaw s \<and>
         gPitch (run G s evs) = gPitch s \<and>
         (enters_perspective keys (run G s evs) \<longrightarrow>
            \<not> bOrthographicProjection (PrepareSceneView G t keys (run G s evs)) \<and>
            gYaw (PrepareSceneView G t keys (run G s evs)) = gYaw s \<and>
            gPitch (PrepareSceneView G t keys (run G s evs)) = gPitch s \<and>
            g_pCamera (PrepareSceneView G t keys (run G s evs)) =
              move_camera keys
                (gBaseMoveSpeed * gSpeedScale (run G s evs) * (t - gLastFrame (run G s evs)))
                (g_pCamera s) \<and>
            (\<not> keys GLFW_KEY_W \<and> \<not> keys GLFW_KEY_S \<and> \<not> keys GLFW_KEY_A \<and>
             \<not> keys GLFW_KEY_D \<and> \<not> keys GLFW_KEY_Q \<and> \<not> keys GLFW_KEY_E \<longrightarrow>
               g_pCamera (PrepareSceneView G t keys (run G s evs)) = g_pCamera s))"
proof -
  note r = run_orthographic [OF assms]
  have sw: "\<not> bOrthographicProjection (PrepareSceneView G t keys (run G s evs))"
    if "enters_perspective keys (run G s evs)"
    using that by (simp add: PrepareSceneView_mode)
  show ?thesis
    using r sw by (auto simp: PrepareSceneView_camera move_camera_no_movement_keys)
qed

theorem orthographic_preserves_pose_witness:
  "ortho_throughout symbolic_glm
     (run symbolic_glm (ViewManager None) [Frame 1 (only GLFW_KEY_O)])
     [CursorPos 10 20, Frame 2 (only GLFW_KEY_W), CursorPos 300 5, Frame 3 (only GLFW_KEY_O)] \<and>
   g_pCamera
     (run symbolic_glm (run symbolic_glm (ViewManager None) [Frame 1 (only GLFW_KEY_O)])
        [CursorPos 10 20, Frame 2 (only GLFW_KEY_W), CursorPos 300 5, Frame 3 (only GLFW_KEY_O)]) =
     \<lparr> Position = Vec3 (Fin 0) (Fin 5) (Fin 12),
        Front = Vec3 (Fin 0) (Fin (- (1 / 2))) (Fin (- 2)),
        Up = Vec3 (Fin 0) (Fin 1) (Fin 0), Zoom = 80 \<rparr> \<and>
   gYaw
     (run symbolic_glm (run symbolic_glm (ViewManager None) [Frame 1 (only GLFW_KEY_O)])
        [CursorPos 10 20, Frame 2 (only GLFW_KEY_W), CursorPos 300 5, Frame 3 (only GLFW_KEY_O)]) =
     Fin (- 180) \<and>
   g_pCamera
     (PrepareSceneView symbolic_glm 4 (only GLFW_KEY_P)
       (run symbolic_glm (run symbolic_glm (ViewManager None) [Frame 1 (only GLFW_KEY_O)])
        [CursorPos 10 20, Frame 2 (only GLFW_KEY_W), CursorPos 300 5, Frame 3 (only GLFW_KEY_O)])) =
     \<lparr> Position = Vec3 (Fin 0) (Fin 5) (Fin 12),
        Front = Vec3 (Fin 0) (Fin (- (1 / 2))) (Fin (- 2)),
        Up = Vec3 (Fin 0) (Fin 1) (Fin 0), Zoom = 80 \<rparr>"
proof -
  let ?s = "run symbolic_glm (ViewManager None) [Frame 1 (only GLFW_KEY_O)]"
  let ?evs = "[CursorPos 10 20, Frame 2 (only GLFW_KEY_W), CursorPos 300 5,
               Frame 3 (only GLFW_KEY_O)]"
  have h: "ortho_throughout symbolic_glm ?s ?evs"
    by (simp add: run_def PrepareSceneView_mode enters_perspective_def enters_orthographic_def
          only_def)
  have p: "enters_perspective (only GLFW_KEY_P) (run symbolic_glm ?s ?evs)"
    by (simp add: run_def enters_perspective_def only_def)
  have c: "g_pCamera ?s = g_pCamera (ViewManager None :: mat4_term view_state)"
    by (simp add: run_def PrepareSceneView_camera PrepareSceneView_mode enters_perspective_def
          enters_orthographic_def only_def)
  have y: "gYaw ?s = Fin (- 180)"
    by (simp add: run_def initial_yaw)
  note t = orthographic_preserves_pose [OF h, of "only GLFW_KEY_P" 4]
  from t have 1: "g_pCamera (run symbolic_glm ?s ?evs) = g_pCamera ?s"
    and 2: "gYaw (run symbolic_glm ?s ?evs) = gYaw ?s"
    by blast+
  have nm: "\<not> only GLFW_KEY_P GLFW_KEY_W \<and> \<not> only GLFW_KEY_P GLFW_KEY_S \<and>
      \<not> only GLFW_KEY_P GLFW_KEY_A \<and> \<not> only GLFW_KEY_P GLFW_KEY_D \<and>
      \<not> only GLFW_KEY_P GLFW_KEY_Q \<and> \<not> only GLFW_KEY_P GLFW_KEY_E"
    by (simp add: only_def)
  from t p nm have 3: "g_pCamera (PrepareSceneView symbolic_glm 4 (only GLFW_KEY_P)
      (run symbolic_glm ?s ?evs)) = g_pCamera ?s"
    by blast
  show ?thesis
  proof (intro conjI)
    show "ortho_throughout symbolic_glm ?s ?evs" by (rule h)
    show "g_pCamera (run symbolic_glm ?s ?evs) =
      \<lparr> Position = Vec3 (Fin 0) (Fin 5) (Fin 12),
        Front = Vec3 (Fin 0) (Fin (- (1 / 2))) (Fin (- 2)),
        Up = Vec3 (Fin 0) (Fin 1) (Fin 0), Zoom = 80 \<rparr>"
      unfolding 1 c by simp
    show "gYaw (run symbolic_glm ?s ?evs) = Fin (- 180)"
      unfolding 2 by (rule y)
    show "g_pCamera (PrepareSceneView symbolic_glm 4 (only GLFW_KEY_P)
        (run symbolic_glm ?s ?evs)) =
      \<lparr> Position = Vec3 (Fin 0) (Fin 5) (Fin 12),
        Front = Vec3 (Fin 0) (Fin (- (1 / 2))) (Fin (- 2)),
        Up = Vec3 (Fin 0) (Fin 1) (Fin 0), Zoom = 80 \<rparr>"
      unfolding 3 c by simp
  qed
qed

section \<open>Movement\<close>

lemma finite_f32_Fin: "finite_f32 a \<Longrightarrow> \<exists>r. a = Fin r"
  by (cases a) simp_all

lemma finite_vec_Fin: "finite_vec v \<Longrightarrow> \<exists>a b c. v = Vec3 (Fin a) (Fin b) (Fin c)"
  by (cases v) (auto simp: finite_vec_def dest: finite_f32_Fin)

lemma held_direction_Position [simp]:
  "held_direction keys (c\<lparr>Position := p\<rparr>) = held_direction keys c"
  by (simp add: held_direction_def)

lemma finite_held_direction:
  assumes "finite_camera c"
  shows "finite_vec (held_direction keys c)"
proof -
  obtain f1 f2 f3 where f: "Front c = Vec3 (Fin f1) (Fin f2) (Fin f3)"
    using assms finite_vec_Fin unfolding finite_camera_def by blast
  obtain u1 u2 u3 where u: "Up c = Vec3 (Fin u1) (Fin u2) (Fin u3)"
    using assms finite_vec_Fin unfolding finite_camera_def by blast
  obtain r1 r2 r3 where
    r: "normalize (cross (Front c) (Up c)) = Vec3 (Fin r1) (Fin r2) (Fin r3)"
    using assms finite_vec_Fin unfolding finite_camera_def by blast
  show ?thesis
    unfolding held_direction_def r by (simp add: f u finite_vec_def vadd_def vscale_def)
qed

lemma move_camera_eq:
  assumes "finite_camera c"
  shows "move_camera keys v c =
     c\<lparr>Position := vadd (Position c) (vscale (held_direction keys c) (Fin v))\<rparr>"
proof -
  obtain p1 p2 p3 where p: "Position c = Vec3 (Fin p1) (Fin p2) (Fin p3)"
    using assms finite_vec_Fin unfolding finite_camera_def by blast
  obtain f1 f2 f3 where f: "Front c = Vec3 (Fin f1) (Fin f2) (Fin f3)"
    using assms finite_vec_Fin unfolding finite_camera_def by blast
  obtain u1 u2 u3 where u: "Up c = Vec3 (Fin u1) (Fin u2) (Fin u3)"
    using assms finite_vec_Fin unfolding finite_camera_def by blast
  obtain r1 r2 r3 where
    r: "normalize (cross (Front c) (Up c)) = Vec3 (Fin r1) (Fin r2) (Fin r3)"
    using assms finite_vec_Fin unfolding finite_camera_def by blast
  have m: "move_camera keys v c =
     (let c1 = (if keys GLFW_KEY_W
                then c\<lparr>Position := vadd (Position c) (vscale (Front c) (Fin v))\<rparr> else c);
          c2 = (if keys GLFW_KEY_S
                then c1\<lparr>Position := vsub (Position c1) (vscale (Front c) (Fin v))\<rparr> else c1);
          right = Vec3 (Fin r1) (Fin r2) (Fin r3);
          c3 = (if keys GLFW_KEY_A
                then c2\<lparr>Position := vsub (Position c2) (vscale right (Fin v))\<rparr> else c2);
          c4 = (if keys GLFW_KEY_D
                then c3\<lparr>Position := vadd (Position c3) (vscale right (Fin v))\<rparr> else c3);
          c5 = (if keys GLFW_KEY_Q
                then c4\<lparr>Position := vadd (Position c4) (vscale (Up c) (Fin v))\<rparr> else c4)
      in (if keys GLFW_KEY_E
          then c5\<lparr>Position := vsub (Position c5) (vscale (Up c) (Fin v))\<rparr> else c5))"
    unfolding move_camera_def Let_def by (simp add: r)
  show ?thesis
    unfolding m held_direction_def r
    by (simp add: Let_def p f u vadd_def vsub_def vscale_def fsub_def algebra_simps)
qed

lemma moved_zero_position:
  assumes "finite_camera c"
  shows "vadd (Position c) (vscale (held_direction keys c) (Fin 0)) = Position c"
proof -
  obtain p1 p2 p3 where p: "Position c = Vec3 (Fin p1) (Fin p2) (Fin p3)"
    using assms finite_vec_Fin unfolding finite_camera_def by blast
  obtain h1 h2 h3 where h: "held_direction keys c = Vec3 (Fin h1) (Fin h2) (Fin h3)"
    using finite_held_direction [OF assms] finite_vec_Fin by blast
  show ?thesis
    by (simp add: p h vadd_def vscale_def)
qed

lemma moved_zero:
  assumes "finite_camera c"
  shows "c\<lparr>Position := vadd (Position c) (vscale (held_direction keys c) (Fin 0))\<rparr> = c"
  by (simp add: moved_zero_position [OF assms])

lemma moved_moved:
  assumes "finite_camera c"
  shows "vadd (vadd (Position c) (vscale (held_direction keys c) (Fin a)))
              (vscale (held_direction keys c) (Fin b)) =
         vadd (Position c) (vscale (held_direction keys c) (Fin (a + b)))"
proof -
  obtain p1 p2 p3 where p: "Position c = Vec3 (Fin p1) (Fin p2) (Fin p3)"
    using assms finite_vec_Fin unfolding finite_camera_def by blast
  obtain h1 h2 h3 where h: "held_direction keys c = Vec3 (Fin h1) (Fin h2) (Fin h3)"
    using finite_held_direction [OF assms] finite_vec_Fin by blast
  show ?thesis by (simp add: p h vadd_def vscale_def algebra_simps)
qed

lemma finite_camera_moved:
  assumes "finite_camera c"
  shows "finite_camera
    (c\<lparr>Position := vadd (Position c) (vscale (held_direction keys c) (Fin a))\<rparr>)"
proof -
  obtain p1 p2 p3 where p: "Position c = Vec3 (Fin p1) (Fin p2) (Fin p3)"
    using assms finite_vec_Fin unfolding finite_camera_def by blast
  obtain h1 h2 h3 where h: "held_direction keys c = Vec3 (Fin h1) (Fin h2) (Fin h3)"
    using finite_held_direction [OF assms] finite_vec_Fin by blast
  have "finite_vec (vadd (Position c) (vscale (held_direction keys c) (Fin a)))"
    by (simp add: p h vadd_def vscale_def finite_vec_def)
  with assms show ?thesis by (simp add: finite_camera_def)
qed

text \<open>The mode in which a poll leaves the state, from the state before it and the keys.\<close>

lemma ProcessKeyboardEvents_camera_eq:
  assumes "finite_camera (g_pCamera s)"
  shows "g_pCamera (ProcessKeyboardEvents keys s) =
     (g_pCamera s)\<lparr>Position :=
        vadd (Position (g_pCamera s))
             (vscale (held_direction keys (g_pCamera s))
                (Fin (if bOrthographicProjection (ProcessKeyboardEvents keys s) then 0
                      else gBaseMoveSpeed * gSpeedScale s * gDeltaTime s)))\<rparr>"
  using assms by (simp add: ProcessKeyboardEvents_camera move_camera_eq moved_zero)

lemma PrepareSceneView_camera_eq:
  assumes "finite_camera (g_pCamera s)"
  shows "g_pCamera (PrepareSceneView G t keys s) =
     (g_pCamera s)\<lparr>Position :=
        vadd (Position (g_pCamera s))
             (vscale (held_direction keys (g_pCamera s))
                (Fin (if bOrthographicProjection (PrepareSceneView G t keys s) then 0
                      else gBaseMoveSpeed * gSpeedScale s * (t - gLastFrame s))))\<rparr>"
  using assms by (simp add: PrepareSceneView_camera move_camera_eq moved_zero)

lemma settled_mode:
  assumes "gToggleKeyDown_O s = keys GLFW_KEY_O" "gToggleKeyDown_P s = keys GLFW_KEY_P"
  shows "bOrthographicProjection (ProcessKeyboardEvents keys s) = bOrthographicProjection s"
    and "bOrthographicProjection (PrepareSceneView G t keys s) = bOrthographicProjection s"
  using assms
  by (simp_all add: ProcessKeyboardEvents_mode_eq PrepareSceneView_mode enters_perspective_def
        enters_orthographic_def)

lemma frames_settled:
  "finite_camera (g_pCamera s) \<Longrightarrow>
   gToggleKeyDown_O s = keys GLFW_KEY_O \<Longrightarrow> gToggleKeyDown_P s = keys GLFW_KEY_P \<Longrightarrow>
   g_pCamera (frames G keys dt n s) =
     (g_pCamera s)\<lparr>Position :=
        vadd (Position (g_pCamera s))
             (vscale (held_direction keys (g_pCamera s))
                (Fin (if bOrthographicProjection s then 0
                      else gBaseMoveSpeed * gSpeedScale s * (real n * dt))))\<rparr>"
proof (induction n arbitrary: s)
  case 0
  then show ?case by (simp add: moved_zero)
next
  case (Suc n)
  define s1 where "s1 = PrepareSceneView G (gLastFrame s + dt) keys s"
  note fc = Suc.prems(1)
  have m: "bOrthographicProjection s1 = bOrthographicProjection s"
    unfolding s1_def using Suc.prems(2,3) by (rule settled_mode)
  have sp: "gSpeedScale s1 = gSpeedScale s"
    by (simp add: s1_def)
  have c: "g_pCamera s1 =
     (g_pCamera s)\<lparr>Position :=
        vadd (Position (g_pCamera s))
             (vscale (held_direction keys (g_pCamera s))
                (Fin (if bOrthographicProjection s then 0
                      else gBaseMoveSpeed * gSpeedScale s * dt)))\<rparr>"
    using m fc by (simp add: s1_def PrepareSceneView_camera_eq)
  have fc1: "finite_camera (g_pCamera s1)"
    unfolding c using fc by (rule finite_camera_moved)
  have ih: "g_pCamera (frames G keys dt n s1) =
     (g_pCamera s1)\<lparr>Position :=
        vadd (Position (g_pCamera s1))
             (vscale (held_direction keys (g_pCamera s1))
                (Fin (if bOrthographicProjection s1 then 0
                      else gBaseMoveSpeed * gSpeedScale s1 * (real n * dt))))\<rparr>"
    using fc1 by (rule Suc.IH) (simp_all add: s1_def)
  have f: "frames G keys dt (Suc n) s = frames G keys dt n s1"
    by (simp add: s1_def)
  show ?case
    unfolding f ih by (simp add: c m sp moved_moved [OF fc] algebra_simps)
qed

lemma polls_settled:
  "finite_camera (g_pCamera s) \<Longrightarrow>
   gToggleKeyDown_O s = keys GLFW_KEY_O \<Longrightarrow> gToggleKeyDown_P s = keys GLFW_KEY_P \<Longrightarrow>
   g_pCamera ((ProcessKeyboardEvents keys ^^ n) s) =
     (g_pCamera s)\<lparr>Position :=
        vadd (Position (g_pCamera s))
             (vscale (held_direction keys (g_pCamera s))
                (Fin (if bOrthographicProjection s then 0
                      else gBaseMoveSpeed * gSpeedScale s * (real n * gDeltaTime s))))\<rparr>"
proof (induction n arbitrary: s)
  case 0
  then show ?case by (simp add: moved_zero)
next
  case (Suc n)
  define s1 where "s1 = ProcessKeyboardEvents keys s"
  note fc = Suc.prems(1)
  have m: "bOrthographicProjection s1 = bOrthographicProjection s"
    unfolding s1_def using Suc.prems(2,3) by (rule settled_mode)
  have sp: "gSpeedScale s1 = gSpeedScale s" "gDeltaTime s1 = gDeltaTime s"
    by (simp_all add: s1_def)
  have c: "g_pCamera s1 =
     (g_pCamera s)\<lparr>Position :=
        vadd (Position (g_pCamera s))
             (vscale (held_direction keys (g_pCamera s))
                (Fin (if bOrthographicProjection s then 0
                      else gBaseMoveSpeed * gSpeedScale s * gDeltaTime s)))\<rparr>"
    using m fc by (simp add: s1_def ProcessKeyboardEvents_camera_eq)
  have fc1: "finite_camera (g_pCamera s1)"
    unfolding c using fc by (rule finite_camera_moved)
  have ih: "g_pCamera ((ProcessKeyboardEvents keys ^^ n) s1) =
     (g_pCamera s1)\<lparr>Position :=
        vadd (Position (g_pCamera s1))
             (vscale (held_direction keys (g_pCamera s1))
                (Fin (if bOrthographicProjection s1 then 0
                      else gBaseMoveSpeed * gSpeedScale s1 * (real n * gDeltaTime s1))))\<rparr>"
    using fc1 by (rule Suc.IH) (simp_all add: s1_def)
  have f: "(ProcessKeyboardEvents keys ^^ Suc n) s = (ProcessKeyboardEvents keys ^^ n) s1"
    by (simp add: s1_def funpow_swap1)
  show ?case
    unfolding f ih by (simp add: c m sp moved_moved [OF fc] algebra_simps)
qed

lemma frames_position:
  assumes fc: "finite_camera (g_pCamera s)"
  shows "Position (g_pCamera (frames G keys dt n s)) =
   Position (g_pCamera (PrepareSceneView G (gLastFrame s + real n * dt) keys s))"
proof (cases n)
  case 0
  then show ?thesis using fc by (simp add: PrepareSceneView_camera_eq moved_zero_position)
next
  case (Suc k)
  define s1 where "s1 = PrepareSceneView G (gLastFrame s + dt) keys s"
  define s2 where "s2 = PrepareSceneView G (gLastFrame s + real (Suc k) * dt) keys s"
  have m: "bOrthographicProjection s2 = bOrthographicProjection s1"
    by (simp add: s1_def s2_def PrepareSceneView_mode)
  have sp: "gSpeedScale s1 = gSpeedScale s"
    by (simp add: s1_def)
  have c1: "g_pCamera s1 =
     (g_pCamera s)\<lparr>Position :=
        vadd (Position (g_pCamera s))
             (vscale (held_direction keys (g_pCamera s))
                (Fin (if bOrthographicProjection s1 then 0
                      else gBaseMoveSpeed * gSpeedScale s * dt)))\<rparr>"
    using fc by (simp add: s1_def PrepareSceneView_camera_eq)
  have c2: "g_pCamera s2 =
     (g_pCamera s)\<lparr>Position :=
        vadd (Position (g_pCamera s))
             (vscale (held_direction keys (g_pCamera s))
                (Fin (if bOrthographicProjection s1 then 0
                      else gBaseMoveSpeed * gSpeedScale s * (real (Suc k) * dt))))\<rparr>"
    unfolding m [symmetric] using fc by (simp add: s2_def PrepareSceneView_camera_eq)
  have fc1: "finite_camera (g_pCamera s1)"
    unfolding c1 using fc by (rule finite_camera_moved)
  have r: "g_pCamera (frames G keys dt k s1) =
     (g_pCamera s1)\<lparr>Position :=
        vadd (Position (g_pCamera s1))
             (vscale (held_direction keys (g_pCamera s1))
                (Fin (if bOrthographicProjection s1 then 0
                      else gBaseMoveSpeed * gSpeedScale s1 * (real k * dt))))\<rparr>"
    using fc1 by (rule frames_settled) (simp_all add: s1_def)
  have f: "frames G keys dt (Suc k) s = frames G keys dt k s1"
    by (simp add: s1_def)
  have "Position (g_pCamera (frames G keys dt (Suc k) s)) = Position (g_pCamera s2)"
    unfolding f r c2 by (simp add: c1 sp moved_moved [OF fc] algebra_simps)
  then show ?thesis by (simp add: Suc s2_def)
qed

lemma polls_position:
  assumes fc: "finite_camera (g_pCamera s)"
  shows "Position (g_pCamera ((ProcessKeyboardEvents keys ^^ n) (s\<lparr>gDeltaTime := dt\<rparr>))) =
   Position (g_pCamera (ProcessKeyboardEvents keys (s\<lparr>gDeltaTime := real n * dt\<rparr>)))"
proof (cases n)
  case 0
  then show ?thesis using fc by (simp add: ProcessKeyboardEvents_camera_eq moved_zero_position)
next
  case (Suc k)
  define s1 where "s1 = ProcessKeyboardEvents keys (s\<lparr>gDeltaTime := dt\<rparr>)"
  define s2 where "s2 = ProcessKeyboardEvents keys (s\<lparr>gDeltaTime := real (Suc k) * dt\<rparr>)"
  have m: "bOrthographicProjection s2 = bOrthographicProjection s1"
    by (simp add: s1_def s2_def ProcessKeyboardEvents_mode_eq enters_perspective_def
          enters_orthographic_def)
  have sp: "gSpeedScale s1 = gSpeedScale s" "gDeltaTime s1 = dt"
    by (simp_all add: s1_def)
  have c1: "g_pCamera s1 =
     (g_pCamera s)\<lparr>Position :=
        vadd (Position (g_pCamera s))
             (vscale (held_direction keys (g_pCamera s))
                (Fin (if bOrthographicProjection s1 then 0
                      else gBaseMoveSpeed * gSpeedScale s * dt)))\<rparr>"
    using fc by (simp add: s1_def ProcessKeyboardEvents_camera_eq)
  have c2: "g_pCamera s2 =
     (g_pCamera s)\<lparr>Position :=
        vadd (Position (g_pCamera s))
             (vscale (held_direction keys (g_pCamera s))
                (Fin (if bOrthographicProjection s1 then 0
                      else gBaseMoveSpeed * gSpeedScale s * (real (Suc k) * dt))))\<rparr>"
    unfolding m [symmetric] using fc by (simp add: s2_def ProcessKeyboardEvents_camera_eq)
  have fc1: "finite_camera (g_pCamera s1)"
    unfolding c1 using fc by (rule finite_camera_moved)
  have r: "g_pCamera ((ProcessKeyboardEvents keys ^^ k) s1) =
     (g_pCamera s1)\<lparr>Position :=
        vadd (Position (g_pCamera s1))
             (vscale (held_direction keys (g_pCamera s1))
                (Fin (if bOrthographicProjection s1 then 0
                      else gBaseMoveSpeed * gSpeedScale s1 * (real k * gDeltaTime s1))))\<rparr>"
    using fc1 by (rule polls_settled) (simp_all add: s1_def)
  have f: "(ProcessKeyboardEvents keys ^^ Suc k) (s\<lparr>gDeltaTime := dt\<rparr>) =
           (ProcessKeyboardEvents keys ^^ k) s1"
    by (simp add: s1_def funpow_swap1)
  have "Position (g_pCamera ((ProcessKeyboardEvents keys ^^ Suc k) (s\<lparr>gDeltaTime := dt\<rparr>))) =
        Position (g_pCamera s2)"
    unfolding f r c2 by (simp add: c1 sp moved_moved [OF fc] algebra_simps)
  then show ?thesis by (simp add: Suc s2_def)
qed

lemma poll_displacement:
  assumes fc: "finite_camera (g_pCamera s)"
  shows "g_pCamera (ProcessKeyboardEvents keys s) =
     (g_pCamera s)\<lparr>Position :=
        vadd (Position (g_pCamera s))
             (vscale (held_direction keys (g_pCamera s))
                (Fin (if enters_perspective keys s \<or>
                         \<not> enters_orthographic keys s \<and> \<not> bOrthographicProjection s
                      then gBaseMoveSpeed * gSpeedScale s * gDeltaTime s else 0)))\<rparr>"
proof -
  have "bOrthographicProjection (ProcessKeyboardEvents keys s) =
      (\<not> (enters_perspective keys s \<or>
          \<not> enters_orthographic keys s \<and> \<not> bOrthographicProjection s))"
    by (simp add: ProcessKeyboardEvents_mode_eq)
  then show ?thesis
    using ProcessKeyboardEvents_camera_eq [OF fc, of keys] by simp
qed

text \<open>
  C7. Take a camera whose position, front and up vector are finite and whose front is not
  parallel to up. For any held keys, mode, speed scale, \<open>dt\<close> and \<open>n\<close>: \<open>n\<close> keyboard
  polls with \<open>gDeltaTime = dt\<close> leave the camera at the position where one poll with
  \<open>gDeltaTime = n * dt\<close> leaves it; and \<open>n\<close> frames whose clock readings advance by
  \<open>dt\<close> leave it where one frame whose clock reading is \<open>n * dt\<close> later leaves it. A poll
  that fires the transition to perspective, or that fires no transition to orthographic in
  perspective mode, adds to the position the direction of the held movement keys scaled by
  \<open>gBaseMoveSpeed * gSpeedScale * gDeltaTime\<close>; any other poll leaves the position as it
  is. A poll leaves front, up and zoom unchanged. Arithmetic on finite values is exact, so
  the positions are equal.
\<close>

theorem frame_rate_independence:
  assumes "finite_camera (g_pCamera s)"
  shows
    "Position (g_pCamera ((ProcessKeyboardEvents keys ^^ n) (s\<lparr>gDeltaTime := dt\<rparr>))) =
       Position (g_pCamera (ProcessKeyboardEvents keys (s\<lparr>gDeltaTime := real n * dt\<rparr>))) \<and>
     Position (g_pCamera (frames G keys dt n s)) =
       Position (g_pCamera (PrepareSceneView G (gLastFrame s + real n * dt) keys s)) \<and>
     g_pCamera (ProcessKeyboardEvents keys s) =
       (g_pCamera s)\<lparr>Position :=
          vadd (Position (g_pCamera s))
               (vscale (held_direction keys (g_pCamera s))
                  (Fin (if enters_perspective keys s \<or>
                           \<not> enters_orthographic keys s \<and> \<not> bOrthographicProjection s
                        then gBaseMoveSpeed * gSpeedScale s * gDeltaTime s else 0)))\<rparr>"
  using polls_position [OF assms] frames_position [OF assms] poll_displacement [OF assms]
  by blast

theorem frame_rate_independence_witness:
  "finite_camera (g_pCamera (ViewManager None :: mat4_term view_state)) \<and>
   Position (g_pCamera ((ProcessKeyboardEvents (only GLFW_KEY_W) ^^ 3)
      ((ViewManager None :: mat4_term view_state)\<lparr>gDeltaTime := 1 / 6\<rparr>))) =
     Vec3 (Fin 0) (Fin (7 / 2)) (Fin 6) \<and>
   Position (g_pCamera (ProcessKeyboardEvents (only GLFW_KEY_W)
      ((ViewManager None :: mat4_term view_state)\<lparr>gDeltaTime := 1 / 2\<rparr>))) =
     Vec3 (Fin 0) (Fin (7 / 2)) (Fin 6)"
proof -
  let ?s = "ViewManager None :: mat4_term view_state"
  have h: "finite_camera (g_pCamera ?s)"
    by (simp add: finite_camera_def finite_vec_def normalize_def cross_def dot_def vscale_def
          fsub_def)
  have r: "normalize (cross (Vec3 (Fin 0) (Fin (- (1 / 2))) (Fin (- 2)))
                           (Vec3 (Fin 0) (Fin 1) (Fin 0))) =
           Vec3 (Fin (2 * (1 / sqrt 4))) (Fin 0) (Fin 0)"
    by (simp add: normalize_def cross_def dot_def vscale_def fsub_def)
  have h2: "finite_camera (g_pCamera (?s\<lparr>gDeltaTime := 1 / 2\<rparr>))"
    using h by simp
  have one: "Position (g_pCamera (ProcessKeyboardEvents (only GLFW_KEY_W)
      (?s\<lparr>gDeltaTime := 1 / 2\<rparr>))) = Vec3 (Fin 0) (Fin (7 / 2)) (Fin 6)"
    using frame_rate_independence [OF h2, where keys = "only GLFW_KEY_W"]
    by (simp add: enters_perspective_def enters_orthographic_def only_def held_direction_def
          r vadd_def vscale_def gBaseMoveSpeed_def)
  have "Position (g_pCamera ((ProcessKeyboardEvents (only GLFW_KEY_W) ^^ 3)
      (?s\<lparr>gDeltaTime := 1 / 6\<rparr>))) =
     Position (g_pCamera (ProcessKeyboardEvents (only GLFW_KEY_W)
      (?s\<lparr>gDeltaTime := real 3 * (1 / 6)\<rparr>)))"
    using frame_rate_independence [OF h, where keys = "only GLFW_KEY_W" and n = 3
        and dt = "1 / 6"]
    by blast
  then show ?thesis using h one by simp
qed

end
